theory Spec2Isabelle
  imports Complex_Main
begin


section \<open>Scope\<close>

text \<open>
  A model of \<^verbatim>\<open>src/server.js\<close>, a location, weather, events, movies and business-listing
  server that caches what its providers answer in a PostgreSQL database
  (\<^verbatim>\<open>src/schema.sql\<close>): the functions \<^verbatim>\<open>handleError\<close>, \<^verbatim>\<open>lookup\<close> and \<^verbatim>\<open>deleteByLocationId\<close>, the
  five constructors with their \<^verbatim>\<open>save\<close> and \<^verbatim>\<open>lookup\<close> functions, the five route handlers and
  the routes.

  A promise is modelled by its outcome (\<open>Inl\<close>: rejected with an error, \<open>Inr\<close>: fulfilled
  with a value) and a \<^verbatim>\<open>.then\<close> or \<^verbatim>\<open>.catch\<close> callback by what is done with that outcome. A function
  with effects takes the state of the world and returns the new one. A request is handled
  to its end before the next one begins: the interleaving of concurrent requests is not
  modelled. The effects of a request are recorded in the order in which the code issues
  them.
\<close>

section \<open>Values, rows and SQL statements\<close>

text \<open>
  The server keeps its cache in a database of five tables and talks to it through one
  \<^verbatim>\<open>pg.Client\<close>. A row as \<^verbatim>\<open>SELECT *\<close> hands it
  back is an object from column names to values; here it is an association list in the
  column order of the schema. The values are those of the column types the schema uses:
  \<^verbatim>\<open>SERIAL\<close>, \<^verbatim>\<open>INTEGER\<close> and \<^verbatim>\<open>BIGINT\<close> columns hold \<open>VInt\<close>, \<^verbatim>\<open>NUMERIC\<close> columns hold \<open>VNum\<close>,
  \<^verbatim>\<open>VARCHAR\<close> and \<^verbatim>\<open>TEXT\<close> columns hold \<open>VStr\<close>. A value is read back as it was written: the
  width of a \<^verbatim>\<open>VARCHAR(255)\<close>, the scale of a \<^verbatim>\<open>NUMERIC(10, 7)\<close> and the driver's text rendering
  of numeric columns are not part of the model (a statement that the database rejects is
  covered by the fault parameter of \<open>client_query\<close> below).
\<close>

type_synonym number = rat

datatype val = VInt int | VNum number | VStr string

type_synonym row = "(string \<times> val) list"

text \<open>
  The four shapes of SQL text the server builds:
  \<^item> \<open>Select t c v\<close>: \<^verbatim>\<open>SELECT * FROM t WHERE c=$1;\<close> with value \<open>v\<close>;
  \<^item> \<open>Insert t cols vals\<close>: \<^verbatim>\<open>INSERT INTO t (cols) VALUES ($1, ...);\<close>;
  \<^item> \<open>InsertOrNothing t cols vals\<close>:
    \<^verbatim>\<open>INSERT INTO t (cols) VALUES ($1, ...) ON CONFLICT DO NOTHING RETURNING id;\<close>;
  \<^item> \<open>Delete t c v\<close>: \<^verbatim>\<open>DELETE from t WHERE c=v;\<close>.
\<close>

datatype stmt =
    Select string string val
  | Insert string "string list" "val list"
  | InsertOrNothing string "string list" "val list"
  | Delete string string val

record result =
  rows :: "row list"
  rowCount :: nat

datatype js_error = DbError | HttpError | TypeError

section \<open>Provider payloads and the records built from them\<close>

text \<open>The parts of the providers' JSON bodies that the constructors read.\<close>

record geo_result =
  formatted_address :: string
  geometry_location_lat :: number
  geometry_location_lng :: number

record day =
  summary :: string
  time :: int

record event_data =
  url :: string
  name_text :: string
  start_local :: string
  summary :: string

record movie_data =
  title :: string
  overview :: string
  vote_average :: number
  vote_count :: number
  poster_path :: string
  popularity :: number
  release_date :: string

record business =
  name :: string
  image_url :: string
  price :: string
  rating :: number
  url :: string

text \<open>The objects the five constructor functions build (\<open>id'\<close> is the field \<^verbatim>\<open>id\<close>).\<close>

record Location =
  tableName :: string
  search_query :: string
  formatted_query :: string
  latitude :: number
  longitude :: number
  id' :: "val option"

record Weather =
  tableName :: string
  forecast :: string
  time :: string
  created_at :: int

record Event =
  tableName :: string
  link :: string
  name :: string
  event_date :: string
  summary :: string

record Movie =
  tableName :: string
  title :: string
  overview :: string
  average_votes :: number
  total_votes :: number
  image_url :: string
  popularity :: number
  released_on :: string

record Yelp =
  tableName :: string
  name :: string
  image_url :: string
  price :: string
  rating :: number
  url :: string

text \<open>
  \<^verbatim>\<open>request.query.data\<close> of the four resource routes: the location the client got from
  \<^verbatim>\<open>/location\<close>, sent back as query-string fields (so the coordinates are text; the id,
  which the database reads as an integer, is the integer). For \<^verbatim>\<open>/location\<close> itself
  \<^verbatim>\<open>request.query.data\<close> is the search text, a \<open>string\<close>.
\<close>

record data =
  id' :: int
  search_query :: string
  formatted_query :: string
  latitude :: string
  longitude :: string

datatype response = Response

section \<open>What a handler does to the outside\<close>

datatype body =
    Row row
  | Rows "row list"
  | ALocation Location
  | Weathers "Weather list"
  | Events "Event list"
  | Movies "Movie list"
  | Yelps "Yelp list"
  | Text string

text \<open>
  \<open>Query\<close>: a statement handed to \<^verbatim>\<open>client.query\<close>; \<open>Get\<close>: a \<^verbatim>\<open>superagent.get\<close> of a URL with the
  headers set on it; \<open>Send\<close>: \<^verbatim>\<open>response.send\<close> with the status in force; \<open>Unhandled\<close>: a rejected
  promise that no handler is attached to.
\<close>

datatype effect =
    Query stmt
  | Get string "(string \<times> string) list"
  | Send nat body
  | ConsoleError js_error
  | ConsoleLog "string list"
  | Unhandled js_error

datatype date_arg = Millis int | DateStr string

text \<open>
  What the program is run against and does not change: the environment variables, the
  text \<^verbatim>\<open>new Date(x).toString()\<close> gives, the successive readings of \<^verbatim>\<open>Date.now()\<close>, which of
  the statements handed to the database are rejected (by their position in the order of
  issue), and the answer of each provider to a URL (\<open>Inl\<close>: the request fails).
\<close>

record platform =
  env :: "string \<Rightarrow> string"
  Date_toString :: "date_arg \<Rightarrow> string"
  clock :: "nat \<Rightarrow> int"
  fault :: "nat \<Rightarrow> bool"
  geocode :: "string \<Rightarrow> (string \<times> string) list \<Rightarrow> js_error + geo_result list"
  darksky :: "string \<Rightarrow> (string \<times> string) list \<Rightarrow> js_error + day list"
  eventbrite :: "string \<Rightarrow> (string \<times> string) list \<Rightarrow> js_error + event_data list"
  tmdb :: "string \<Rightarrow> (string \<times> string) list \<Rightarrow> js_error + movie_data list"
  yelp_fusion :: "string \<Rightarrow> (string \<times> string) list \<Rightarrow> js_error + business list"

text \<open>
  What changes: the tables by name, the next value of each table's \<^verbatim>\<open>id\<close> sequence, how many
  statements were issued and how many times the clock was read, and the effects so far.
\<close>

record world =
  tables :: "string \<rightharpoonup> row list"
  serial :: "string \<Rightarrow> int"
  issued :: nat
  ticks :: nat
  trace :: "effect list"

section \<open>The database client\<close>

text \<open>
  Every table of the schema has \<^verbatim>\<open>id SERIAL PRIMARY KEY\<close>: an insert takes the next value of
  the sequence (also when it then fails) and collides when a row already has that id. A
  plain insert then fails; with \<^verbatim>\<open>ON CONFLICT DO NOTHING RETURNING id\<close> it succeeds with no row.
\<close>

definition has_id :: "int \<Rightarrow> row list \<Rightarrow> bool" where
  "has_id i rs = (Some (VInt i) \<in> set (map (\<lambda>r. map_of r ''id'') rs))"

fun sql :: "stmt \<Rightarrow> world \<Rightarrow> (js_error + result) \<times> world" where
  "sql (Select t c v) w =
     (case tables w t of
        None \<Rightarrow> (Inl DbError, w)
      | Some rs \<Rightarrow>
          (let m = filter (\<lambda>r. map_of r c = Some v) rs
           in (Inr \<lparr>rows = m, rowCount = length m\<rparr>, w)))"
| "sql (Insert t cols vals) w =
     (case tables w t of
        None \<Rightarrow> (Inl DbError, w)
      | Some rs \<Rightarrow>
          (let i = serial w t; w1 = w\<lparr>serial := (serial w)(t := i + 1)\<rparr>
           in if has_id i rs then (Inl DbError, w1)
              else (Inr \<lparr>rows = [], rowCount = 1\<rparr>,
                    w1\<lparr>tables := (tables w)(t \<mapsto> rs @ [(''id'', VInt i) # zip cols vals])\<rparr>)))"
| "sql (InsertOrNothing t cols vals) w =
     (case tables w t of
        None \<Rightarrow> (Inl DbError, w)
      | Some rs \<Rightarrow>
          (let i = serial w t; w1 = w\<lparr>serial := (serial w)(t := i + 1)\<rparr>
           in if has_id i rs then (Inr \<lparr>rows = [], rowCount = 0\<rparr>, w1)
              else (Inr \<lparr>rows = [[(''id'', VInt i)]], rowCount = 1\<rparr>,
                    w1\<lparr>tables := (tables w)(t \<mapsto> rs @ [(''id'', VInt i) # zip cols vals])\<rparr>)))"
| "sql (Delete t c v) w =
     (case tables w t of
        None \<Rightarrow> (Inl DbError, w)
      | Some rs \<Rightarrow>
          (let keep = filter (\<lambda>r. map_of r c \<noteq> Some v) rs
           in (Inr \<lparr>rows = [], rowCount = length rs - length keep\<rparr>,
               w\<lparr>tables := (tables w)(t \<mapsto> keep)\<rparr>)))"

text \<open>
  \<^verbatim>\<open>client.query(SQL, values)\<close>: the promise it returns is the first component (\<open>Inl\<close>:
  rejected). The client sends its statements in the order of the calls, so a statement
  takes effect here at the call.
\<close>

definition client_query :: "platform \<Rightarrow> stmt \<Rightarrow> world \<Rightarrow> (js_error + result) \<times> world" where
  "client_query P q w =
     (let w1 = w\<lparr>issued := Suc (issued w), trace := trace w @ [Query q]\<rparr>
      in if fault P (issued w) then (Inl DbError, w1) else sql q w1)"

text \<open>A promise that is dropped: when it is rejected, nobody handles the rejection.\<close>

definition forget :: "(js_error + 'a) \<times> world \<Rightarrow> world" where
  "forget p =
     (case p of
        (Inl error, w) \<Rightarrow> w\<lparr>trace := trace w @ [Unhandled error]\<rparr>
      | (Inr _, w) \<Rightarrow> w)"

text \<open>\<^verbatim>\<open>superagent.get(url)\<close>, with the headers set on the request, sent to a provider.\<close>

definition superagent_get ::
  "(string \<Rightarrow> (string \<times> string) list \<Rightarrow> js_error + 'a) \<Rightarrow> string
     \<Rightarrow> (string \<times> string) list \<Rightarrow> world \<Rightarrow> (js_error + 'a) \<times> world" where
  "superagent_get service u headers w =
     (service u headers, w\<lparr>trace := trace w @ [Get u headers]\<rparr>)"

definition response_send :: "response \<Rightarrow> nat \<Rightarrow> body \<Rightarrow> world \<Rightarrow> world" where
  "response_send res status b w = w\<lparr>trace := trace w @ [Send status b]\<rparr>"

definition Date_now :: "platform \<Rightarrow> world \<Rightarrow> int \<times> world" where
  "Date_now P w = (clock P (ticks w), w\<lparr>ticks := Suc (ticks w)\<rparr>)"

text \<open>\<^verbatim>\<open>xs.slice(b, e)\<close> for indices that are not negative, on arrays and on strings.\<close>

definition slice :: "nat \<Rightarrow> nat \<Rightarrow> 'a list \<Rightarrow> 'a list" where
  "slice b e xs = take (e - b) (drop b xs)"

text \<open>\<^verbatim>\<open>xs.map(f)\<close> for a callback with effects: left to right, the world passed along.\<close>

fun Array_map :: "('a \<Rightarrow> world \<Rightarrow> 'b \<times> world) \<Rightarrow> 'a list \<Rightarrow> world \<Rightarrow> 'b list \<times> world" where
  "Array_map f [] w = ([], w)"
| "Array_map f (x # xs) w =
     (case f x w of (y, w1) \<Rightarrow> (case Array_map f xs w1 of (ys, w2) \<Rightarrow> (y # ys, w2)))"

section \<open>Error handler, lookup, delete\<close>

definition handleError :: "js_error \<Rightarrow> response option \<Rightarrow> world \<Rightarrow> world" where
  "handleError err res w =
     (let w1 = w\<lparr>trace := trace w @ [ConsoleError err]\<rparr>
      in case res of
           None \<Rightarrow> w1
         | Some r \<Rightarrow> response_send r 500 (Text ''Sorry, something went wrong'') w1)"

record options =
  tableName :: string
  location :: int
  cacheHit :: "result \<Rightarrow> world \<Rightarrow> world"
  cacheMiss :: "world \<Rightarrow> world"

definition lookup :: "platform \<Rightarrow> options \<Rightarrow> world \<Rightarrow> world" where
  "lookup P opts w =
     (case client_query P
             (Select (options.tableName opts) ''location_id'' (VInt (location opts))) w of
        (Inl error, w1) \<Rightarrow> handleError error None w1
      | (Inr result, w1) \<Rightarrow>
          if rowCount result > 0 then options.cacheHit opts result w1
          else options.cacheMiss opts w1)"

definition deleteByLocationId ::
  "platform \<Rightarrow> string \<Rightarrow> int \<Rightarrow> world \<Rightarrow> (js_error + result) \<times> world" where
  "deleteByLocationId P table city w = client_query P (Delete table ''location_id'' (VInt city)) w"

definition timeouts_weathers :: int where
  "timeouts_weathers = 15 * 1000"

section \<open>Location\<close>

text \<open>
  \<^verbatim>\<open>new Location(query, res)\<close> reads \<^verbatim>\<open>res.body.results[0]\<close>. On an empty array that is
  \<^verbatim>\<open>undefined\<close>, and reading \<^verbatim>\<open>formatted_address\<close> of it throws a \<^verbatim>\<open>TypeError\<close>.
\<close>

definition Location_new :: "string \<Rightarrow> geo_result list \<Rightarrow> js_error + Location" where
  "Location_new q results =
     (case results of
        [] \<Rightarrow> Inl TypeError
      | r # _ \<Rightarrow>
          Inr \<lparr>Location.tableName = ''locations'',
               search_query = q,
               formatted_query = formatted_address r,
               latitude = geometry_location_lat r,
               longitude = geometry_location_lng r,
               id' = None\<rparr>)"

record location_options =
  tableName :: "string option"
  query :: string
  cacheHit :: "result \<Rightarrow> world \<Rightarrow> world"
  cacheMiss :: "world \<Rightarrow> world"

text \<open>\<^verbatim>\<open>Location.tableName\<close> is never assigned (only instances get a \<^verbatim>\<open>tableName\<close>).\<close>

definition Location_tableName :: "string option" where
  "Location_tableName = None"

definition console_error :: "js_error \<Rightarrow> world \<Rightarrow> world" where
  "console_error err w = w\<lparr>trace := trace w @ [ConsoleError err]\<rparr>"

definition lookupLocation :: "platform \<Rightarrow> location_options \<Rightarrow> world \<Rightarrow> world" where
  "lookupLocation P loc w =
     (case client_query P (Select ''locations'' ''search_query'' (VStr (query loc))) w of
        (Inl error, w1) \<Rightarrow> console_error error w1
      | (Inr result, w1) \<Rightarrow>
          if rowCount result > 0 then location_options.cacheHit loc result w1
          else location_options.cacheMiss loc w1)"

text \<open>
  \<^verbatim>\<open>Location.prototype.save\<close>: the promise of the saved location. When the insert returns no
  row, \<^verbatim>\<open>result.rows[0]\<close> is \<^verbatim>\<open>undefined\<close> and reading its \<^verbatim>\<open>id\<close> throws inside the
  continuation, which rejects the promise.
\<close>

definition Location_save :: "platform \<Rightarrow> Location \<Rightarrow> world \<Rightarrow> (js_error + Location) \<times> world" where
  "Location_save P this w =
     (case client_query P
             (InsertOrNothing ''locations''
                [''search_query'', ''formatted_query'', ''latitude'', ''longitude'']
                [VStr (Location.search_query this), VStr (Location.formatted_query this),
                 VNum (Location.latitude this), VNum (Location.longitude this)]) w of
        (Inl error, w1) \<Rightarrow> (Inl error, w1)
      | (Inr result, w1) \<Rightarrow>
          (case rows result of
             [] \<Rightarrow> (Inl TypeError, w1)
           | r # _ \<Rightarrow> (Inr (this\<lparr>Location.id' := map_of r ''id''\<rparr>), w1)))"

text \<open>
  The miss path of \<^verbatim>\<open>getLocation\<close>. An error of the request or of the constructor reaches
  \<^verbatim>\<open>.catch(error => handleError(error))\<close>, which passes no response. The promise of
  \<^verbatim>\<open>location.save()\<close> is not returned to that chain, so its rejection is handled nowhere.
\<close>

definition getLocation_url :: "platform \<Rightarrow> string \<Rightarrow> string" where
  "getLocation_url P q =
     ''https://maps.googleapis.com/maps/api/geocode/json?address='' @ q
       @ ''&key='' @ env P ''GEOCODE_API_KEY''"

definition getLocation_cacheMiss :: "platform \<Rightarrow> string \<Rightarrow> response \<Rightarrow> world \<Rightarrow> world" where
  "getLocation_cacheMiss P q response w =
     (let u = getLocation_url P q
      in case superagent_get (geocode P) u [] w of
           (Inl error, w1) \<Rightarrow> handleError error None w1
         | (Inr result, w1) \<Rightarrow>
             (case Location_new q result of
                Inl error \<Rightarrow> handleError error None w1
              | Inr loc \<Rightarrow>
                  (case Location_save P loc w1 of
                     (Inl error, w2) \<Rightarrow> w2\<lparr>trace := trace w2 @ [Unhandled error]\<rparr>
                   | (Inr saved, w2) \<Rightarrow> response_send response 200 (ALocation saved) w2)))"

text \<open>
  The hit path sends \<^verbatim>\<open>result.rows[0]\<close>; it runs only when \<^verbatim>\<open>rowCount > 0\<close>. (On an empty
  array \<^verbatim>\<open>response.send(undefined)\<close> would send an empty body.)
\<close>

definition getLocation_cacheHit :: "response \<Rightarrow> result \<Rightarrow> world \<Rightarrow> world" where
  "getLocation_cacheHit response result w =
     (case rows result of
        [] \<Rightarrow> response_send response 200 (Text []) w
      | r # _ \<Rightarrow> response_send response 200 (Row r) w)"

definition getLocation :: "platform \<Rightarrow> string \<Rightarrow> response \<Rightarrow> world \<Rightarrow> world" where
  "getLocation P request response w =
     lookupLocation P
       \<lparr>location_options.tableName = Location_tableName,
        query = request,
        cacheHit = getLocation_cacheHit response,
        cacheMiss = getLocation_cacheMiss P request response\<rparr> w"

section \<open>Weather\<close>

definition Weather_new :: "platform \<Rightarrow> day \<Rightarrow> world \<Rightarrow> Weather \<times> world" where
  "Weather_new P d w =
     (case Date_now P w of
        (now, w1) \<Rightarrow>
          (\<lparr>Weather.tableName = ''weathers'',
            forecast = day.summary d,
            time = slice 0 15 (Date_toString P (Millis (day.time d * 1000))),
            created_at = now\<rparr>, w1))"

definition Weather_tableName :: string where
  "Weather_tableName = ''weathers''"

definition Weather_lookup :: "platform \<Rightarrow> options \<Rightarrow> world \<Rightarrow> world" where
  "Weather_lookup = lookup"

definition Weather_deleteByLocationId ::
  "platform \<Rightarrow> string \<Rightarrow> int \<Rightarrow> world \<Rightarrow> (js_error + result) \<times> world" where
  "Weather_deleteByLocationId = deleteByLocationId"

text \<open>The \<^verbatim>\<open>save\<close> methods of the four resources do not keep the promise of \<^verbatim>\<open>client.query\<close>.\<close>

definition Weather_save :: "platform \<Rightarrow> Weather \<Rightarrow> int \<Rightarrow> world \<Rightarrow> world" where
  "Weather_save P this location_id w =
     forget (client_query P
       (Insert (Weather.tableName this)
          [''forecast'', ''time'', ''created_at'', ''location_id'']
          [VStr (forecast this), VStr (Weather.time this), VInt (created_at this),
           VInt location_id]) w)"

definition getWeather_url :: "platform \<Rightarrow> data \<Rightarrow> string" where
  "getWeather_url P request =
     ''https://api.darksky.net/forecast/'' @ env P ''WEATHER_API_KEY'' @ ''/''
       @ data.latitude request @ '','' @ data.longitude request"

definition getWeather_cacheMiss :: "platform \<Rightarrow> data \<Rightarrow> response \<Rightarrow> world \<Rightarrow> world" where
  "getWeather_cacheMiss P request response w =
     (let u = getWeather_url P request
      in case superagent_get (darksky P) u [] w of
           (Inl error, w1) \<Rightarrow> handleError error (Some response) w1
         | (Inr result, w1) \<Rightarrow>
             (case Array_map
                     (\<lambda>d v. case Weather_new P d v of
                              (s, v1) \<Rightarrow> (s, Weather_save P s (data.id' request) v1))
                     result w1 of
                (weatherSummaries, w2) \<Rightarrow> response_send response 200 (Weathers weatherSummaries) w2))"

text \<open>
  \<^verbatim>\<open>Date.now() - result.rows[0].created_at\<close>. The column is \<^verbatim>\<open>BIGINT\<close>, so the value is an
  integer; for a row without one the difference is \<^verbatim>\<open>NaN\<close> (\<open>None\<close>), and \<^verbatim>\<open>NaN > n\<close> is false.
\<close>

definition ageOfResults :: "int \<Rightarrow> row \<Rightarrow> int option" where
  "ageOfResults now r =
     (case map_of r ''created_at'' of
        Some (VInt c) \<Rightarrow> Some (now - c)
      | _ \<Rightarrow> None)"

definition getWeather_cacheHit :: "platform \<Rightarrow> data \<Rightarrow> response \<Rightarrow> result \<Rightarrow> world \<Rightarrow> world" where
  "getWeather_cacheHit P request response result w =
     (case rows result of
        [] \<Rightarrow> handleError TypeError None w
      | r # _ \<Rightarrow>
          (case Date_now P w of
             (now, w1) \<Rightarrow>
               if (case ageOfResults now r of Some age \<Rightarrow> age > timeouts_weathers | None \<Rightarrow> False)
               then
                 (let w2 = w1\<lparr>trace := trace w1 @
                             [ConsoleLog [''Invalid weather data for location: '',
                                          data.search_query request]]\<rparr>;
                      w3 = forget (Weather_deleteByLocationId P Weather_tableName
                                     (data.id' request) w2)
                  in getWeather_cacheMiss P request response w3)
               else response_send response 200 (Rows (rows result)) w1))"

definition getWeather :: "platform \<Rightarrow> data \<Rightarrow> response \<Rightarrow> world \<Rightarrow> world" where
  "getWeather P request response w =
     Weather_lookup P
       \<lparr>options.tableName = Weather_tableName,
        location = data.id' request,
        cacheHit = getWeather_cacheHit P request response,
        cacheMiss = getWeather_cacheMiss P request response\<rparr> w"

section \<open>Events\<close>

definition Event_new :: "platform \<Rightarrow> event_data \<Rightarrow> Event" where
  "Event_new P e =
     \<lparr>Event.tableName = ''events'',
      link = event_data.url e,
      name = name_text e,
      event_date = slice 0 15 (Date_toString P (DateStr (start_local e))),
      summary = event_data.summary e\<rparr>"

definition Event_tableName :: string where
  "Event_tableName = ''events''"

definition Event_lookup :: "platform \<Rightarrow> options \<Rightarrow> world \<Rightarrow> world" where
  "Event_lookup = lookup"

definition Event_save :: "platform \<Rightarrow> Event \<Rightarrow> int \<Rightarrow> world \<Rightarrow> world" where
  "Event_save P this location_id w =
     forget (client_query P
       (Insert (Event.tableName this)
          [''link'', ''name'', ''event_date'', ''summary'', ''location_id'']
          [VStr (link this), VStr (Event.name this), VStr (event_date this),
           VStr (Event.summary this), VInt location_id]) w)"

definition getEvents_cacheHit :: "response \<Rightarrow> result \<Rightarrow> world \<Rightarrow> world" where
  "getEvents_cacheHit response result w = response_send response 200 (Rows (rows result)) w"

definition getEvents_url :: "platform \<Rightarrow> data \<Rightarrow> string" where
  "getEvents_url P request =
     ''https://www.eventbriteapi.com/v3/events/search?token='' @ env P ''EVENTBRITE_API_KEY''
       @ ''&location.address='' @ data.formatted_query request"

definition getEvents_cacheMiss :: "platform \<Rightarrow> data \<Rightarrow> response \<Rightarrow> world \<Rightarrow> world" where
  "getEvents_cacheMiss P request response w =
     (let u = getEvents_url P request
      in case superagent_get (eventbrite P) u [] w of
           (Inl error, w1) \<Rightarrow> handleError error (Some response) w1
         | (Inr result, w1) \<Rightarrow>
             (case Array_map
                     (\<lambda>eventData v.
                        let event = Event_new P eventData
                        in (event, Event_save P event (data.id' request) v))
                     result w1 of
                (mapped, w2) \<Rightarrow> response_send response 200 (Events (slice 0 2 mapped)) w2))"

definition getEvents :: "platform \<Rightarrow> data \<Rightarrow> response \<Rightarrow> world \<Rightarrow> world" where
  "getEvents P request response w =
     Event_lookup P
       \<lparr>options.tableName = Event_tableName,
        location = data.id' request,
        cacheHit = getEvents_cacheHit response,
        cacheMiss = getEvents_cacheMiss P request response\<rparr> w"

section \<open>Movies\<close>

definition Movie_new :: "movie_data \<Rightarrow> Movie" where
  "Movie_new res =
     \<lparr>Movie.tableName = ''movies'',
      title = movie_data.title res,
      overview = movie_data.overview res,
      average_votes = vote_average res,
      total_votes = vote_count res,
      image_url = ''https://image.tmdb.org/t/p/w185/'' @ poster_path res,
      popularity = movie_data.popularity res,
      released_on = release_date res\<rparr>"

definition Movie_tableName :: string where
  "Movie_tableName = ''movies''"

definition Movie_lookup :: "platform \<Rightarrow> options \<Rightarrow> world \<Rightarrow> world" where
  "Movie_lookup = lookup"

definition Movie_save :: "platform \<Rightarrow> Movie \<Rightarrow> int \<Rightarrow> world \<Rightarrow> world" where
  "Movie_save P this location_id w =
     forget (client_query P
       (Insert (Movie.tableName this)
          [''title'', ''overview'', ''average_votes'', ''total_votes'', ''image_url'',
           ''popularity'', ''released_on'', ''location_id'']
          [VStr (Movie.title this), VStr (Movie.overview this), VNum (average_votes this),
           VNum (total_votes this), VStr (Movie.image_url this), VNum (Movie.popularity this),
           VStr (released_on this), VInt location_id]) w)"

definition getMovies_cacheHit :: "response \<Rightarrow> result \<Rightarrow> world \<Rightarrow> world" where
  "getMovies_cacheHit response result w = response_send response 200 (Rows (rows result)) w"

definition getMovies_url :: "platform \<Rightarrow> data \<Rightarrow> string" where
  "getMovies_url P request =
     ''https://api.themoviedb.org/3/search/movie?api_key='' @ env P ''MOVIE_API_KEY''
       @ ''&query='' @ data.search_query request"

definition getMovies_cacheMiss :: "platform \<Rightarrow> data \<Rightarrow> response \<Rightarrow> world \<Rightarrow> world" where
  "getMovies_cacheMiss P request response w =
     (let u = getMovies_url P request
      in case superagent_get (tmdb P) u [] w of
           (Inl error, w1) \<Rightarrow> handleError error (Some response) w1
         | (Inr result, w1) \<Rightarrow>
             (case Array_map
                     (\<lambda>mov v.
                        let movies = Movie_new mov
                        in (movies, Movie_save P movies (data.id' request) v))
                     result w1 of
                (mapped, w2) \<Rightarrow> response_send response 200 (Movies (slice 0 2 mapped)) w2))"

text \<open>\<^verbatim>\<open>getMovies\<close> calls \<^verbatim>\<open>Event.lookup\<close>, with the table name of \<^verbatim>\<open>Movie\<close>.\<close>

definition getMovies :: "platform \<Rightarrow> data \<Rightarrow> response \<Rightarrow> world \<Rightarrow> world" where
  "getMovies P request response w =
     Event_lookup P
       \<lparr>options.tableName = Movie_tableName,
        location = data.id' request,
        cacheHit = getMovies_cacheHit response,
        cacheMiss = getMovies_cacheMiss P request response\<rparr> w"

section \<open>Yelp\<close>

definition Yelp_new :: "business \<Rightarrow> Yelp" where
  "Yelp_new res =
     \<lparr>Yelp.tableName = ''yelp'',
      name = business.name res,
      image_url = business.image_url res,
      price = business.price res,
      rating = business.rating res,
      url = business.url res\<rparr>"

definition Yelp_tableName :: string where
  "Yelp_tableName = ''yelp''"

definition Yelp_lookup :: "platform \<Rightarrow> options \<Rightarrow> world \<Rightarrow> world" where
  "Yelp_lookup = lookup"

definition Yelp_save :: "platform \<Rightarrow> Yelp \<Rightarrow> int \<Rightarrow> world \<Rightarrow> world" where
  "Yelp_save P this location_id w =
     forget (client_query P
       (Insert (Yelp.tableName this)
          [''name'', ''url'', ''image_url'', ''rating'', ''price'', ''location_id'']
          [VStr (Yelp.name this), VStr (Yelp.url this), VStr (Yelp.image_url this),
           VNum (Yelp.rating this), VStr (Yelp.price this), VInt location_id]) w)"

definition getYelp_cacheHit :: "response \<Rightarrow> result \<Rightarrow> world \<Rightarrow> world" where
  "getYelp_cacheHit response result w = response_send response 200 (Rows (rows result)) w"

definition getYelp_url :: "data \<Rightarrow> string" where
  "getYelp_url request =
     ''https://api.yelp.com/v3/businesses/search?latitude='' @ data.latitude request
       @ ''&longitude='' @ data.longitude request"

definition getYelp_headers :: "platform \<Rightarrow> (string \<times> string) list" where
  "getYelp_headers P =
     (let apiKey = ''Bearer '' @ env P ''YELP_API_KEY''
      in [(''Authorization'', apiKey), (''Accept'', ''application/json'')])"

definition getYelp_cacheMiss :: "platform \<Rightarrow> data \<Rightarrow> response \<Rightarrow> world \<Rightarrow> world" where
  "getYelp_cacheMiss P request response w =
     (let u = getYelp_url request
      in case superagent_get (yelp_fusion P) u (getYelp_headers P) w of
           (Inl error, w1) \<Rightarrow> handleError error (Some response) w1
         | (Inr result, w1) \<Rightarrow>
             (case Array_map
                     (\<lambda>ylp v.
                        let yelps = Yelp_new ylp
                        in (yelps, Yelp_save P yelps (data.id' request) v))
                     result w1 of
                (mapped, w2) \<Rightarrow> response_send response 200 (Yelps (slice 0 2 mapped)) w2))"

definition getYelp :: "platform \<Rightarrow> data \<Rightarrow> response \<Rightarrow> world \<Rightarrow> world" where
  "getYelp P request response w =
     Yelp_lookup P
       \<lparr>options.tableName = Yelp_tableName,
        location = data.id' request,
        cacheHit = getYelp_cacheHit response,
        cacheMiss = getYelp_cacheMiss P request response\<rparr> w"

section \<open>Routes and the initial database\<close>

datatype request =
    GET_location string
  | GET_weather data
  | GET_events data
  | GET_movies data
  | GET_yelp data

fun app :: "platform \<Rightarrow> request \<Rightarrow> world \<Rightarrow> world" where
  "app P (GET_location q) w = getLocation P q Response w"
| "app P (GET_weather d) w = getWeather P d Response w"
| "app P (GET_events d) w = getEvents P d Response w"
| "app P (GET_movies d) w = getMovies P d Response w"
| "app P (GET_yelp d) w = getYelp P d Response w"

text \<open>The database right after \<^verbatim>\<open>schema.sql\<close>: five empty tables, every sequence at 1.\<close>

definition schema :: world where
  "schema =
     \<lparr>tables = [''locations'' \<mapsto> [], ''weathers'' \<mapsto> [], ''events'' \<mapsto> [],
                ''movies'' \<mapsto> [], ''yelp'' \<mapsto> []],
      serial = (\<lambda>_. 1), issued = 0, ticks = 0, trace = []\<rparr>"

section \<open>Reading a trace\<close>

text \<open>The effects a step added, the responses among some effects, the provider calls.\<close>

definition added :: "world \<Rightarrow> world \<Rightarrow> effect list" where
  "added w w' = drop (length (trace w)) (trace w')"

fun sends :: "effect list \<Rightarrow> (nat \<times> body) list" where
  "sends [] = []"
| "sends (Send status b # es) = (status, b) # sends es"
| "sends (_ # es) = sends es"

fun gets :: "effect list \<Rightarrow> string list" where
  "gets [] = []"
| "gets (Get u _ # es) = u # gets es"
| "gets (_ # es) = gets es"

fun queries :: "effect list \<Rightarrow> stmt list" where
  "queries [] = []"
| "queries (Query q # es) = q # queries es"
| "queries (_ # es) = queries es"

text \<open>The rows of a table for a location, as \<^verbatim>\<open>lookup\<close> selects them.\<close>

definition rows_of :: "world \<Rightarrow> string \<Rightarrow> int \<Rightarrow> row list" where
  "rows_of w t l =
     (case tables w t of
        None \<Rightarrow> []
      | Some rs \<Rightarrow> filter (\<lambda>r. map_of r ''location_id'' = Some (VInt l)) rs)"

section \<open>Notions the claims are stated with\<close>

text \<open>
  A cache miss and a cache hit of \<^verbatim>\<open>lookup\<close> on table \<open>t\<close> for location \<open>l\<close>: the \<^verbatim>\<open>SELECT\<close>, which
  is the next statement issued, is answered (not rejected, the table exists), and finds
  no row, or finds one. \<open>location_misses\<close> is the miss of \<^verbatim>\<open>Location.lookupLocation\<close> for a
  search text.
\<close>

definition misses :: "platform \<Rightarrow> world \<Rightarrow> string \<Rightarrow> int \<Rightarrow> bool" where
  "misses P w t l = (\<not> fault P (issued w) \<and> tables w t \<noteq> None \<and> rows_of w t l = [])"

definition hits :: "platform \<Rightarrow> world \<Rightarrow> string \<Rightarrow> int \<Rightarrow> bool" where
  "hits P w t l = (\<not> fault P (issued w) \<and> rows_of w t l \<noteq> [])"

definition location_misses :: "platform \<Rightarrow> world \<Rightarrow> string \<Rightarrow> bool" where
  "location_misses P w q =
     (\<not> fault P (issued w)
      \<and> (case tables w ''locations'' of
            None \<Rightarrow> False
          | Some rs \<Rightarrow> filter (\<lambda>r. map_of r ''search_query'' = Some (VStr q)) rs = []))"

text \<open>
  The rows of a table (none when there is no such table), the rows a step added to it,
  the rows of a table that are not of a location, and the \<^verbatim>\<open>created_at\<close> of the first row that
  a weather lookup for a location returns.
\<close>

definition table :: "world \<Rightarrow> string \<Rightarrow> row list" where
  "table w t = (case tables w t of None \<Rightarrow> [] | Some rs \<Rightarrow> rs)"


definition without_location :: "world \<Rightarrow> string \<Rightarrow> int \<Rightarrow> row list" where
  "without_location w t l =
     filter (\<lambda>r. map_of r ''location_id'' \<noteq> Some (VInt l)) (table w t)"

definition first_created_at :: "world \<Rightarrow> int \<Rightarrow> val option" where
  "first_created_at w l =
     (case rows_of w Weather_tableName l of
        [] \<Rightarrow> None
      | r # _ \<Rightarrow> map_of r ''created_at'')"

text \<open>
  The number of items in a response body, the response of \<^verbatim>\<open>handleError\<close>, the table a
  statement is on, and a row holding given values in given columns.
\<close>

fun items :: "body \<Rightarrow> nat" where
  "items (Row r) = 1"
| "items (Rows rs) = length rs"
| "items (ALocation l) = 1"
| "items (Weathers xs) = length xs"
| "items (Events xs) = length xs"
| "items (Movies xs) = length xs"
| "items (Yelps xs) = length xs"
| "items (Text s) = 0"

definition sorry_500 :: "nat \<times> body" where
  "sorry_500 = (500, Text ''Sorry, something went wrong'')"

fun stmt_table :: "stmt \<Rightarrow> string" where
  "stmt_table (Select t c v) = t"
| "stmt_table (Insert t cols vals) = t"
| "stmt_table (InsertOrNothing t cols vals) = t"
| "stmt_table (Delete t c v) = t"


text \<open>
  The \<open>Weather\<close> that \<^verbatim>\<open>new Weather(day)\<close> builds when \<^verbatim>\<open>Date.now()\<close> gives its \<open>n\<close>-th reading (lemma
  \<open>Weather_new_at\<close> below), and the records that mapping a payload builds, one reading each,
  from the \<open>n\<close>-th on.
\<close>

definition Weather_at :: "platform \<Rightarrow> nat \<Rightarrow> day \<Rightarrow> Weather" where
  "Weather_at P n d =
     \<lparr>Weather.tableName = ''weathers'',
      forecast = day.summary d,
      time = slice 0 15 (Date_toString P (Millis (day.time d * 1000))),
      created_at = clock P n\<rparr>"

fun stamp :: "platform \<Rightarrow> nat \<Rightarrow> day list \<Rightarrow> Weather list" where
  "stamp P n [] = []"
| "stamp P n (d # ds) = Weather_at P n d # stamp P (Suc n) ds"

text \<open>
  \<^verbatim>\<open>getMovies\<close> as it would read with \<^verbatim>\<open>Movie.lookup\<close> in the place of \<^verbatim>\<open>Event.lookup\<close>.
\<close>

definition getMovies_by_Movie_lookup :: "platform \<Rightarrow> data \<Rightarrow> response \<Rightarrow> world \<Rightarrow> world" where
  "getMovies_by_Movie_lookup P request response w =
     Movie_lookup P
       \<lparr>options.tableName = Movie_tableName,
        location = data.id' request,
        cacheHit = getMovies_cacheHit response,
        cacheMiss = getMovies_cacheMiss P request response\<rparr> w"

section \<open>Notions of the proofs\<close>

text \<open>
  What every \<^verbatim>\<open>save\<close> of a resource does, and a run of them: the loops of the four
  handlers are shown below to be such runs.
\<close>

definition save_row :: "platform \<Rightarrow> string \<Rightarrow> string list \<Rightarrow> val list \<Rightarrow> world \<Rightarrow> world" where
  "save_row P t cols vals w = forget (client_query P (Insert t cols vals) w)"

fun save_rows :: "platform \<Rightarrow> string \<Rightarrow> string list \<Rightarrow> val list list \<Rightarrow> world \<Rightarrow> world" where
  "save_rows P t cols [] w = w"
| "save_rows P t cols (vals # vss) w = save_rows P t cols vss (save_row P t cols vals w)"

text \<open>
  The column names and the values of the four \<^verbatim>\<open>INSERT\<close> statements (and of the one for
  locations), as the \<^verbatim>\<open>save\<close> methods list them.
\<close>

definition Weather_columns :: "string list" where
  "Weather_columns = [''forecast'', ''time'', ''created_at'', ''location_id'']"

definition Weather_values :: "Weather \<Rightarrow> int \<Rightarrow> val list" where
  "Weather_values this l =
     [VStr (forecast this), VStr (Weather.time this), VInt (created_at this), VInt l]"

definition Event_columns :: "string list" where
  "Event_columns = [''link'', ''name'', ''event_date'', ''summary'', ''location_id'']"

definition Event_values :: "Event \<Rightarrow> int \<Rightarrow> val list" where
  "Event_values this l =
     [VStr (link this), VStr (Event.name this), VStr (event_date this),
      VStr (Event.summary this), VInt l]"

definition Movie_columns :: "string list" where
  "Movie_columns =
     [''title'', ''overview'', ''average_votes'', ''total_votes'', ''image_url'',
      ''popularity'', ''released_on'', ''location_id'']"

definition Movie_values :: "Movie \<Rightarrow> int \<Rightarrow> val list" where
  "Movie_values this l =
     [VStr (Movie.title this), VStr (Movie.overview this), VNum (average_votes this),
      VNum (total_votes this), VStr (Movie.image_url this), VNum (Movie.popularity this),
      VStr (released_on this), VInt l]"

definition Yelp_columns :: "string list" where
  "Yelp_columns = [''name'', ''url'', ''image_url'', ''rating'', ''price'', ''location_id'']"

definition Yelp_values :: "Yelp \<Rightarrow> int \<Rightarrow> val list" where
  "Yelp_values this l =
     [VStr (Yelp.name this), VStr (Yelp.url this), VStr (Yelp.image_url this),
      VNum (Yelp.rating this), VStr (Yelp.price this), VInt l]"



text \<open>
  The \<^verbatim>\<open>id\<close> sequence of a table is ahead of the ids in it when every id in the table is
  below the sequence's next value: then no insert collides. \<open>new_rows\<close> are the rows that a
  run of successful inserts appends, with ids from \<open>i\<close> on.
\<close>

definition ids_below :: "int \<Rightarrow> row list \<Rightarrow> bool" where
  "ids_below i rs =
     list_all (\<lambda>r. case map_of r ''id'' of Some (VInt j) \<Rightarrow> j < i | _ \<Rightarrow> True) rs"

fun new_rows :: "int \<Rightarrow> string list \<Rightarrow> val list list \<Rightarrow> row list" where
  "new_rows i cols [] = []"
| "new_rows i cols (vals # vss) = ((''id'', VInt i) # zip cols vals) # new_rows (i + 1) cols vss"

section \<open>Example platforms, stores and requests\<close>

text \<open>
  For the concrete instances: a platform whose providers answer with a few items and
  whose database rejects nothing, variants of it (a later clock, clocks that put a stored
  weather row at the age of 15000 ms and of 15001 ms, a database that rejects every
  statement but the first, a geocoder that finds nothing), the location of the spec's
  scenario, and stores: one with a cached weather row, one with a row in each of the
  other resource tables, one whose \<^verbatim>\<open>locations\<close> sequence lags behind its rows.
\<close>

definition demo_platform :: platform where
  "demo_platform =
     \<lparr>env = (\<lambda>_. ''KEY''),
      Date_toString = (\<lambda>_. ''Sun Nov 01 2026 10:00:00 GMT+0000 (UTC)''),
      clock = (\<lambda>n. 100000 + int n),
      fault = (\<lambda>_. False),
      geocode = (\<lambda>_ _. Inr [\<lparr>formatted_address = ''Renton, WA 98056, USA'',
                              geometry_location_lat = 4748 / 100,
                              geometry_location_lng = - 12219 / 100\<rparr>]),
      darksky = (\<lambda>_ _. Inr [\<lparr>day.summary = ''Rain'', time = 1572566400\<rparr>]),
      eventbrite = (\<lambda>_ _. Inr [\<lparr>event_data.url = ''u1'', name_text = ''n1'',
                                  start_local = ''2019-11-01T10:00:00'', summary = ''s1''\<rparr>,
                               \<lparr>event_data.url = ''u2'', name_text = ''n2'',
                                  start_local = ''2019-11-02T10:00:00'', summary = ''s2''\<rparr>,
                               \<lparr>event_data.url = ''u3'', name_text = ''n3'',
                                  start_local = ''2019-11-03T10:00:00'', summary = ''s3''\<rparr>]),
      tmdb = (\<lambda>_ _. Inr [\<lparr>movie_data.title = ''t1'', overview = ''o1'', vote_average = 7,
                            vote_count = 10, poster_path = ''p1.jpg'', popularity = 3,
                            release_date = ''2019-01-01''\<rparr>]),
      yelp_fusion = (\<lambda>_ _. Inr [\<lparr>business.name = ''b1'', image_url = ''i1'', price = ''$'',
                                   rating = 9 / 2, url = ''y1''\<rparr>])\<rparr>"

definition demo_data :: data where
  "demo_data =
     \<lparr>data.id' = 1, search_query = ''98005'', formatted_query = ''Renton, WA 98056, USA'',
      latitude = ''47.48'', longitude = ''-122.19''\<rparr>"






definition boundary_platform :: platform where
  "boundary_platform = demo_platform\<lparr>clock := (\<lambda>n. 105000 + int n)\<rparr>"

definition past_platform :: platform where
  "past_platform = demo_platform\<lparr>clock := (\<lambda>n. 105001 + int n)\<rparr>"


definition nowhere_platform :: platform where
  "nowhere_platform = demo_platform\<lparr>geocode := (\<lambda>_ _. Inr [])\<rparr>"


definition elsewhere :: data where
  "elsewhere =
     \<lparr>data.id' = 2, search_query = ''seattle'', formatted_query = ''Seattle, WA, USA'',
      latitude = ''47.6062095'', longitude = ''-122.3320708''\<rparr>"

definition traffic :: "request list" where
  "traffic =
     [GET_weather demo_data, GET_events elsewhere, GET_movies elsewhere, GET_yelp elsewhere,
      GET_location ''98005'', GET_events demo_data, GET_movies demo_data, GET_yelp demo_data]"

definition cached :: world where
  "cached =
     schema\<lparr>tables := (tables schema)(''weathers'' \<mapsto>
                [[(''id'', VInt 1), (''forecast'', VStr ''Rain''),
                  (''time'', VStr ''Fri Nov 01 2019''), (''created_at'', VInt 90000),
                  (''location_id'', VInt 1)]]),
            serial := (serial schema)(''weathers'' := 2)\<rparr>"

definition stocked :: world where
  "stocked =
     schema\<lparr>tables := (tables schema)
              (''events'' \<mapsto> [[(''id'', VInt 1), (''link'', VStr ''u1''), (''name'', VStr ''n1''),
                               (''event_date'', VStr ''Fri Nov 01 2019''),
                               (''summary'', VStr ''s1''), (''location_id'', VInt 1)]],
               ''movies'' \<mapsto> [[(''id'', VInt 1), (''title'', VStr ''t1''),
                               (''overview'', VStr ''o1''), (''average_votes'', VNum 7),
                               (''total_votes'', VNum 10),
                               (''image_url'', VStr ''https://image.tmdb.org/t/p/w185/p1.jpg''),
                               (''popularity'', VNum 3), (''released_on'', VStr ''2019-01-01''),
                               (''location_id'', VInt 1)]],
               ''yelp'' \<mapsto> [[(''id'', VInt 1), (''name'', VStr ''b1''), (''url'', VStr ''y1''),
                             (''image_url'', VStr ''i1''), (''rating'', VNum (9 / 2)),
                             (''price'', VStr ''$''), (''location_id'', VInt 1)]]),
            serial := (\<lambda>_. 2)\<rparr>"

definition lagging :: world where
  "lagging =
     schema\<lparr>tables := (tables schema)(''locations'' \<mapsto>
       [[(''id'', VInt 1), (''search_query'', VStr ''seattle''),
         (''formatted_query'', VStr ''Seattle, WA, USA''),
         (''latitude'', VNum (476062095 / 10000000)),
         (''longitude'', VNum (- 1223320708 / 10000000))]])\<rparr>"


section \<open>Traces, ids and single inserts\<close>

lemma sends_append: "sends (xs @ ys) = sends xs @ sends ys"
  by (induction xs rule: sends.induct) simp_all

lemma gets_append: "gets (xs @ ys) = gets xs @ gets ys"
  by (induction xs rule: gets.induct) simp_all

lemma queries_append: "queries (xs @ ys) = queries xs @ queries ys"
  by (induction xs rule: queries.induct) simp_all

lemma added_append: "trace w' = trace w @ es \<Longrightarrow> added w w' = es"
  by (simp add: added_def)

lemma has_id_below: "ids_below i rs \<Longrightarrow> i \<le> j \<Longrightarrow> \<not> has_id j rs"
  by (induction rs) (auto simp: ids_below_def has_id_def split: option.splits val.splits)

lemma ids_below_snoc:
  "ids_below i rs \<Longrightarrow> ids_below (i + 1) (rs @ [(''id'', VInt i) # kvs])"
  by (induction rs) (auto simp: ids_below_def split: option.splits val.splits)

lemma save_row_None:
  "tables w t = None \<Longrightarrow>
   save_row P t cols vals w =
     w\<lparr>issued := Suc (issued w),
       trace := trace w @ [Query (Insert t cols vals), Unhandled DbError]\<rparr>"
  by (simp add: save_row_def client_query_def forget_def Let_def)

lemma save_row_Some:
  "tables w t = Some rs \<Longrightarrow>
   save_row P t cols vals w =
     (if fault P (issued w) then
        w\<lparr>issued := Suc (issued w),
          trace := trace w @ [Query (Insert t cols vals), Unhandled DbError]\<rparr>
      else if has_id (serial w t) rs then
        w\<lparr>serial := (serial w)(t := serial w t + 1),
          issued := Suc (issued w),
          trace := trace w @ [Query (Insert t cols vals), Unhandled DbError]\<rparr>
      else
        w\<lparr>tables := (tables w)(t \<mapsto> rs @ [(''id'', VInt (serial w t)) # zip cols vals]),
          serial := (serial w)(t := serial w t + 1),
          issued := Suc (issued w),
          trace := trace w @ [Query (Insert t cols vals)]\<rparr>)"
  by (simp add: save_row_def client_query_def forget_def Let_def)

lemma save_row_trace:
  "\<exists>es. trace (save_row P t cols vals w) = trace w @ es \<and> sends es = [] \<and> gets es = []"
  by (cases "tables w t") (simp_all add: save_row_None save_row_Some)

lemma save_row_issued: "issued (save_row P t cols vals w) = Suc (issued w)"
  by (cases "tables w t") (simp_all add: save_row_None save_row_Some)

lemma save_row_ticks: "ticks (save_row P t cols vals w) = ticks w"
  by (cases "tables w t") (simp_all add: save_row_None save_row_Some)

lemma save_row_other: "t' \<noteq> t \<Longrightarrow> tables (save_row P t cols vals w) t' = tables w t'"
  by (cases "tables w t") (simp_all add: save_row_None save_row_Some)

section \<open>Runs of inserts\<close>

lemma save_rows_trace:
  "\<exists>es. trace (save_rows P t cols vss w) = trace w @ es \<and> sends es = [] \<and> gets es = []"
proof (induction vss arbitrary: w)
  case Nil
  show ?case by simp
next
  case (Cons vals vss)
  obtain es1 where e1: "trace (save_row P t cols vals w) = trace w @ es1"
    "sends es1 = []" "gets es1 = []"
    using save_row_trace by blast
  obtain es2 where e2:
    "trace (save_rows P t cols vss (save_row P t cols vals w))
       = trace (save_row P t cols vals w) @ es2"
    "sends es2 = []" "gets es2 = []"
    using Cons.IH by blast
  have "trace (save_rows P t cols (vals # vss) w) = trace w @ (es1 @ es2)"
    using e1 e2 by simp
  moreover have "sends (es1 @ es2) = []" "gets (es1 @ es2) = []"
    using e1 e2 by (simp_all add: sends_append gets_append)
  ultimately show ?case by blast
qed

lemma save_rows_issued: "issued (save_rows P t cols vss w) = issued w + length vss"
  by (induction vss arbitrary: w) (simp_all add: save_row_issued)

lemma save_rows_ticks: "ticks (save_rows P t cols vss w) = ticks w"
  by (induction vss arbitrary: w) (simp_all add: save_row_ticks)

lemma save_rows_other: "t' \<noteq> t \<Longrightarrow> tables (save_rows P t cols vss w) t' = tables w t'"
  by (induction vss arbitrary: w) (simp_all add: save_row_other)


lemma save_rows_all:
  "tables w t = Some rs \<Longrightarrow> ids_below (serial w t) rs \<Longrightarrow>
   (\<And>k. k < length vss \<Longrightarrow> \<not> fault P (issued w + k)) \<Longrightarrow>
   tables (save_rows P t cols vss w) t = Some (rs @ new_rows (serial w t) cols vss)"
proof (induction vss arbitrary: w rs)
  case Nil
  then show ?case by simp
next
  case (Cons vals vss)
  let ?row = "(''id'', VInt (serial w t)) # zip cols vals"
  let ?w1 = "save_row P t cols vals w"
  have nf: "\<not> fault P (issued w)" using Cons.prems(3) [of 0] by simp
  have nh: "\<not> has_id (serial w t) rs" using has_id_below [OF Cons.prems(2)] by simp
  have w1: "?w1 = w\<lparr>tables := (tables w)(t \<mapsto> rs @ [?row]),
          serial := (serial w)(t := serial w t + 1),
          issued := Suc (issued w),
          trace := trace w @ [Query (Insert t cols vals)]\<rparr>"
    using Cons.prems(1) nf nh by (simp add: save_row_Some)
  have t1: "tables ?w1 t = Some (rs @ [?row])" by (simp add: w1)
  have s1: "serial ?w1 t = serial w t + 1" by (simp add: w1)
  have i1: "issued ?w1 = Suc (issued w)" by (simp add: w1)
  have b1: "ids_below (serial ?w1 t) (rs @ [?row])"
    using ids_below_snoc [OF Cons.prems(2)] s1 by simp
  have f1: "\<And>k. k < length vss \<Longrightarrow> \<not> fault P (issued ?w1 + k)"
    using Cons.prems(3) i1 by fastforce
  have "tables (save_rows P t cols vss ?w1) t
         = Some ((rs @ [?row]) @ new_rows (serial ?w1 t) cols vss)"
    by (rule Cons.IH [OF t1 b1 f1])
  then show ?case by (simp add: s1)
qed

section \<open>The loops of the handlers are runs of inserts\<close>

lemma Event_save_row:
  "Event_save P (Event_new P e) l w
     = save_row P ''events'' Event_columns (Event_values (Event_new P e) l) w"
  by (simp add: Event_save_def save_row_def Event_columns_def Event_values_def Event_new_def)

lemma Movie_save_row:
  "Movie_save P (Movie_new e) l w
     = save_row P ''movies'' Movie_columns (Movie_values (Movie_new e) l) w"
  by (simp add: Movie_save_def save_row_def Movie_columns_def Movie_values_def Movie_new_def)

lemma Yelp_save_row:
  "Yelp_save P (Yelp_new e) l w
     = save_row P ''yelp'' Yelp_columns (Yelp_values (Yelp_new e) l) w"
  by (simp add: Yelp_save_def save_row_def Yelp_columns_def Yelp_values_def Yelp_new_def)

lemma Weather_save_row:
  "Weather_save P (Weather_at P n d) l w
     = save_row P ''weathers'' Weather_columns (Weather_values (Weather_at P n d) l) w"
  by (simp add: Weather_save_def save_row_def Weather_columns_def Weather_values_def Weather_at_def)

lemma Weather_new_at:
  "Weather_new P d w = (Weather_at P (ticks w) d, w\<lparr>ticks := Suc (ticks w)\<rparr>)"
  by (simp add: Weather_new_def Date_now_def Weather_at_def)

lemma save_row_ticks_update:
  "save_row P t cols vals (w\<lparr>ticks := n\<rparr>) = (save_row P t cols vals w)\<lparr>ticks := n\<rparr>"
  by (cases "tables w t") (simp_all add: save_row_None save_row_Some)

lemma save_rows_ticks_update:
  "save_rows P t cols vss (w\<lparr>ticks := n\<rparr>) = (save_rows P t cols vss w)\<lparr>ticks := n\<rparr>"
  by (induction vss arbitrary: w) (simp_all add: save_row_ticks_update)

lemma events_loop:
  "Array_map (\<lambda>eventData v. let event = Event_new P eventData
                             in (event, Event_save P event l v)) p w
     = (map (Event_new P) p,
        save_rows P ''events'' Event_columns (map (\<lambda>e. Event_values (Event_new P e) l) p) w)"
  by (induction p arbitrary: w) (simp_all add: Let_def Event_save_row)

lemma movies_loop:
  "Array_map (\<lambda>mov v. let movies = Movie_new mov in (movies, Movie_save P movies l v)) p w
     = (map Movie_new p,
        save_rows P ''movies'' Movie_columns (map (\<lambda>e. Movie_values (Movie_new e) l) p) w)"
  by (induction p arbitrary: w) (simp_all add: Let_def Movie_save_row)

lemma yelp_loop:
  "Array_map (\<lambda>ylp v. let yelps = Yelp_new ylp in (yelps, Yelp_save P yelps l v)) p w
     = (map Yelp_new p,
        save_rows P ''yelp'' Yelp_columns (map (\<lambda>e. Yelp_values (Yelp_new e) l) p) w)"
  by (induction p arbitrary: w) (simp_all add: Let_def Yelp_save_row)

lemma weather_loop:
  "Array_map (\<lambda>d v. case Weather_new P d v of (s, v1) \<Rightarrow> (s, Weather_save P s l v1)) ds w
     = (stamp P (ticks w) ds,
        (save_rows P ''weathers'' Weather_columns
           (map (\<lambda>s. Weather_values s l) (stamp P (ticks w) ds)) w)
          \<lparr>ticks := ticks w + length ds\<rparr>)"
proof (induction ds arbitrary: w)
  case Nil
  show ?case by simp
next
  case (Cons d ds)
  let ?w1 = "(save_row P ''weathers'' Weather_columns
                (Weather_values (Weather_at P (ticks w) d) l) w)\<lparr>ticks := Suc (ticks w)\<rparr>"
  have step: "(case Weather_new P d w of (s, v1) \<Rightarrow> (s, Weather_save P s l v1))
                = (Weather_at P (ticks w) d, ?w1)"
    by (simp add: Weather_new_at Weather_save_row save_row_ticks_update)
  have t1: "ticks ?w1 = Suc (ticks w)" by simp
  show ?case
    by (simp add: step Cons.IH t1 save_rows_ticks_update del: stamp.simps)
       (simp add: stamp.simps)
qed

section \<open>Lookup, and the responses of the miss paths\<close>

lemma select_ok:
  "\<not> fault P (issued w) \<Longrightarrow> tables w t = Some rs \<Longrightarrow>
   client_query P (Select t c v) w
     = (Inr \<lparr>rows = filter (\<lambda>r. map_of r c = Some v) rs,
             rowCount = length (filter (\<lambda>r. map_of r c = Some v) rs)\<rparr>,
        w\<lparr>issued := Suc (issued w), trace := trace w @ [Query (Select t c v)]\<rparr>)"
  by (simp add: client_query_def Let_def)

lemma lookup_miss:
  "misses P w (options.tableName opts) (location opts) \<Longrightarrow>
   lookup P opts w
     = options.cacheMiss opts
         (w\<lparr>issued := Suc (issued w),
            trace := trace w @ [Query (Select (options.tableName opts) ''location_id''
                                         (VInt (location opts)))]\<rparr>)"
  by (auto simp: misses_def rows_of_def lookup_def select_ok)

lemma lookup_hit:
  "hits P w (options.tableName opts) (location opts) \<Longrightarrow>
   lookup P opts w
     = options.cacheHit opts
         \<lparr>rows = rows_of w (options.tableName opts) (location opts),
          rowCount = length (rows_of w (options.tableName opts) (location opts))\<rparr>
         (w\<lparr>issued := Suc (issued w),
            trace := trace w @ [Query (Select (options.tableName opts) ''location_id''
                                         (VInt (location opts)))]\<rparr>)"
  by (auto simp: hits_def rows_of_def lookup_def select_ok split: option.splits)

lemma sends_after_rows:
  "trace v = trace w @ pre \<Longrightarrow> sends pre = [] \<Longrightarrow>
   sends (added w (response_send res status b (save_rows P t cols vss v))) = [(status, b)]"
proof -
  assume a: "trace v = trace w @ pre" "sends pre = []"
  obtain es where es: "trace (save_rows P t cols vss v) = trace v @ es" "sends es = []"
    using save_rows_trace by blast
  have "trace (response_send res status b (save_rows P t cols vss v))
          = trace w @ (pre @ es @ [Send status b])"
    using a es by (simp add: response_send_def)
  then have "added w (response_send res status b (save_rows P t cols vss v))
          = pre @ es @ [Send status b]"
    by (rule added_append)
  then show ?thesis using a es by (simp add: sends_append)
qed

lemma sends_after_error:
  "trace v = trace w @ pre \<Longrightarrow> sends pre = [] \<Longrightarrow>
   sends (added w (handleError e (Some res) v)) = [sorry_500]"
proof -
  assume a: "trace v = trace w @ pre" "sends pre = []"
  have "trace (handleError e (Some res) v)
          = trace w @ (pre @ [ConsoleError e, Send 500 (Text ''Sorry, something went wrong'')])"
    using a by (simp add: handleError_def response_send_def)
  then have "added w (handleError e (Some res) v)
          = pre @ [ConsoleError e, Send 500 (Text ''Sorry, something went wrong'')]"
    by (rule added_append)
  then show ?thesis using a by (simp add: sends_append sorry_500_def)
qed

lemma getEvents_cacheMiss_sends:
  assumes "trace v = trace w @ pre" "sends pre = []"
  shows "sends (added w (getEvents_cacheMiss P request response v))
     = (case eventbrite P (getEvents_url P request) [] of
          Inl e \<Rightarrow> [sorry_500]
        | Inr p \<Rightarrow> [(200, Events (slice 0 2 (map (Event_new P) p)))])"
proof (cases "eventbrite P (getEvents_url P request) []")
  case (Inl e)
  have "sends (added w (handleError e (Some response)
          (v\<lparr>trace := trace v @ [Get (getEvents_url P request) []]\<rparr>))) = [sorry_500]"
    by (rule sends_after_error [where pre = "pre @ [Get (getEvents_url P request) []]"])
       (simp_all add: assms sends_append)
  then show ?thesis
    by (simp add: getEvents_cacheMiss_def superagent_get_def Inl)
next
  case (Inr p)
  have "sends (added w (response_send response 200 (Events (slice 0 2 (map (Event_new P) p)))
          (save_rows P ''events'' Event_columns
             (map (\<lambda>e. Event_values (Event_new P e) (data.id' request)) p)
             (v\<lparr>trace := trace v @ [Get (getEvents_url P request) []]\<rparr>))))
        = [(200, Events (slice 0 2 (map (Event_new P) p)))]"
    by (rule sends_after_rows [where pre = "pre @ [Get (getEvents_url P request) []]"])
       (simp_all add: assms sends_append)
  then show ?thesis
    by (simp add: getEvents_cacheMiss_def superagent_get_def Inr events_loop)
qed

lemma getMovies_cacheMiss_sends:
  assumes "trace v = trace w @ pre" "sends pre = []"
  shows "sends (added w (getMovies_cacheMiss P request response v))
     = (case tmdb P (getMovies_url P request) [] of
          Inl e \<Rightarrow> [sorry_500]
        | Inr p \<Rightarrow> [(200, Movies (slice 0 2 (map Movie_new p)))])"
proof (cases "tmdb P (getMovies_url P request) []")
  case (Inl e)
  have "sends (added w (handleError e (Some response)
          (v\<lparr>trace := trace v @ [Get (getMovies_url P request) []]\<rparr>))) = [sorry_500]"
    by (rule sends_after_error [where pre = "pre @ [Get (getMovies_url P request) []]"])
       (simp_all add: assms sends_append)
  then show ?thesis
    by (simp add: getMovies_cacheMiss_def superagent_get_def Inl)
next
  case (Inr p)
  have "sends (added w (response_send response 200 (Movies (slice 0 2 (map Movie_new p)))
          (save_rows P ''movies'' Movie_columns
             (map (\<lambda>e. Movie_values (Movie_new e) (data.id' request)) p)
             (v\<lparr>trace := trace v @ [Get (getMovies_url P request) []]\<rparr>))))
        = [(200, Movies (slice 0 2 (map Movie_new p)))]"
    by (rule sends_after_rows [where pre = "pre @ [Get (getMovies_url P request) []]"])
       (simp_all add: assms sends_append)
  then show ?thesis
    by (simp add: getMovies_cacheMiss_def superagent_get_def Inr movies_loop)
qed

lemma getYelp_cacheMiss_sends:
  assumes "trace v = trace w @ pre" "sends pre = []"
  shows "sends (added w (getYelp_cacheMiss P request response v))
     = (case yelp_fusion P (getYelp_url request) (getYelp_headers P) of
          Inl e \<Rightarrow> [sorry_500]
        | Inr p \<Rightarrow> [(200, Yelps (slice 0 2 (map Yelp_new p)))])"
proof (cases "yelp_fusion P (getYelp_url request) (getYelp_headers P)")
  case (Inl e)
  have "sends (added w (handleError e (Some response)
          (v\<lparr>trace := trace v @ [Get (getYelp_url request) (getYelp_headers P)]\<rparr>))) = [sorry_500]"
    by (rule sends_after_error [where pre = "pre @ [Get (getYelp_url request) (getYelp_headers P)]"])
       (simp_all add: assms sends_append)
  then show ?thesis
    by (simp add: getYelp_cacheMiss_def superagent_get_def Inl)
next
  case (Inr p)
  have "sends (added w (response_send response 200 (Yelps (slice 0 2 (map Yelp_new p)))
          (save_rows P ''yelp'' Yelp_columns
             (map (\<lambda>e. Yelp_values (Yelp_new e) (data.id' request)) p)
             (v\<lparr>trace := trace v @ [Get (getYelp_url request) (getYelp_headers P)]\<rparr>))))
        = [(200, Yelps (slice 0 2 (map Yelp_new p)))]"
    by (rule sends_after_rows [where pre = "pre @ [Get (getYelp_url request) (getYelp_headers P)]"])
       (simp_all add: assms sends_append)
  then show ?thesis
    by (simp add: getYelp_cacheMiss_def superagent_get_def Inr yelp_loop)
qed


section \<open>The world after a cache miss\<close>


lemma getEvents_miss_sends:
  assumes "misses P w Event_tableName (data.id' request)"
  shows "sends (added w (getEvents P request response w))
     = (case eventbrite P (getEvents_url P request) [] of
          Inl e \<Rightarrow> [sorry_500]
        | Inr p \<Rightarrow> [(200, Events (slice 0 2 (map (Event_new P) p)))])"
proof -
  let ?q = "Query (Select ''events'' ''location_id'' (VInt (data.id' request)))"
  let ?v = "w\<lparr>issued := Suc (issued w), trace := trace w @ [?q]\<rparr>"
  have "getEvents P request response w = getEvents_cacheMiss P request response ?v"
    using assms by (simp add: getEvents_def Event_lookup_def lookup_miss Event_tableName_def)
  moreover have "sends (added w (getEvents_cacheMiss P request response ?v))
     = (case eventbrite P (getEvents_url P request) [] of
          Inl e \<Rightarrow> [sorry_500]
        | Inr p \<Rightarrow> [(200, Events (slice 0 2 (map (Event_new P) p)))])"
    by (rule getEvents_cacheMiss_sends [where pre = "[?q]"]) simp_all
  ultimately show ?thesis by simp
qed







lemma getMovies_miss_sends:
  assumes "misses P w Movie_tableName (data.id' request)"
  shows "sends (added w (getMovies P request response w))
     = (case tmdb P (getMovies_url P request) [] of
          Inl e \<Rightarrow> [sorry_500]
        | Inr p \<Rightarrow> [(200, Movies (slice 0 2 (map Movie_new p)))])"
proof -
  let ?q = "Query (Select ''movies'' ''location_id'' (VInt (data.id' request)))"
  let ?v = "w\<lparr>issued := Suc (issued w), trace := trace w @ [?q]\<rparr>"
  have "getMovies P request response w = getMovies_cacheMiss P request response ?v"
    using assms by (simp add: getMovies_def Event_lookup_def lookup_miss Movie_tableName_def)
  moreover have "sends (added w (getMovies_cacheMiss P request response ?v))
     = (case tmdb P (getMovies_url P request) [] of
          Inl e \<Rightarrow> [sorry_500]
        | Inr p \<Rightarrow> [(200, Movies (slice 0 2 (map Movie_new p)))])"
    by (rule getMovies_cacheMiss_sends [where pre = "[?q]"]) simp_all
  ultimately show ?thesis by simp
qed

lemma getYelp_miss_sends:
  assumes "misses P w Yelp_tableName (data.id' request)"
  shows "sends (added w (getYelp P request response w))
     = (case yelp_fusion P (getYelp_url request) (getYelp_headers P) of
          Inl e \<Rightarrow> [sorry_500]
        | Inr p \<Rightarrow> [(200, Yelps (slice 0 2 (map Yelp_new p)))])"
proof -
  let ?q = "Query (Select ''yelp'' ''location_id'' (VInt (data.id' request)))"
  let ?v = "w\<lparr>issued := Suc (issued w), trace := trace w @ [?q]\<rparr>"
  have "getYelp P request response w = getYelp_cacheMiss P request response ?v"
    using assms by (simp add: getYelp_def Yelp_lookup_def lookup_miss Yelp_tableName_def)
  moreover have "sends (added w (getYelp_cacheMiss P request response ?v))
     = (case yelp_fusion P (getYelp_url request) (getYelp_headers P) of
          Inl e \<Rightarrow> [sorry_500]
        | Inr p \<Rightarrow> [(200, Yelps (slice 0 2 (map Yelp_new p)))])"
    by (rule getYelp_cacheMiss_sends [where pre = "[?q]"]) simp_all
  ultimately show ?thesis by simp
qed


lemma at_most_two:
  "length (slice 0 2 xs) \<le> 2"
  by (simp add: slice_def)

lemma demo_misses:
  "misses demo_platform schema Event_tableName (data.id' demo_data)"
  "misses demo_platform schema Movie_tableName (data.id' demo_data)"
  "misses demo_platform schema Yelp_tableName (data.id' demo_data)"
  "misses demo_platform schema Weather_tableName (data.id' demo_data)"
  by (simp_all add: misses_def demo_platform_def schema_def rows_of_def
        Event_tableName_def Movie_tableName_def Yelp_tableName_def Weather_tableName_def)

text \<open>The definitions of the program, for running it on a concrete input.\<close>

lemmas run_defs =
  getLocation_def lookupLocation_def getLocation_cacheHit_def getLocation_cacheMiss_def
  getLocation_url_def Location_new_def Location_save_def Location_tableName_def console_error_def
  getWeather_def getWeather_cacheHit_def getWeather_cacheMiss_def getWeather_url_def
  Weather_new_def Weather_save_def Weather_lookup_def Weather_tableName_def
  Weather_deleteByLocationId_def deleteByLocationId_def ageOfResults_def timeouts_weathers_def
  getEvents_def getEvents_cacheHit_def getEvents_cacheMiss_def getEvents_url_def
  Event_new_def Event_save_def Event_lookup_def Event_tableName_def
  getMovies_def getMovies_cacheHit_def getMovies_cacheMiss_def getMovies_url_def
  Movie_new_def Movie_save_def Movie_lookup_def Movie_tableName_def
  getYelp_def getYelp_cacheHit_def getYelp_cacheMiss_def getYelp_url_def getYelp_headers_def
  Yelp_new_def Yelp_save_def Yelp_lookup_def Yelp_tableName_def
  lookup_def handleError_def client_query_def forget_def superagent_get_def
  response_send_def Date_now_def slice_def has_id_def Let_def




section \<open>The statements of \<open>getMovies\<close>\<close>

lemma save_row_queries:
  "\<exists>es. trace (save_row P t cols vals w) = trace w @ es
        \<and> list_all (\<lambda>q. stmt_table q = t) (queries es)"
  by (cases "tables w t") (simp_all add: save_row_None save_row_Some)

lemma save_rows_queries:
  "\<exists>es. trace (save_rows P t cols vss w) = trace w @ es
        \<and> list_all (\<lambda>q. stmt_table q = t) (queries es)"
proof (induction vss arbitrary: w)
  case Nil
  show ?case by simp
next
  case (Cons vals vss)
  obtain es1 where e1: "trace (save_row P t cols vals w) = trace w @ es1"
    "list_all (\<lambda>q. stmt_table q = t) (queries es1)"
    using save_row_queries by blast
  obtain es2 where e2:
    "trace (save_rows P t cols vss (save_row P t cols vals w))
       = trace (save_row P t cols vals w) @ es2"
    "list_all (\<lambda>q. stmt_table q = t) (queries es2)"
    using Cons.IH by blast
  have "trace (save_rows P t cols (vals # vss) w) = trace w @ (es1 @ es2)"
    using e1 e2 by simp
  moreover have "list_all (\<lambda>q. stmt_table q = t) (queries (es1 @ es2))"
    using e1 e2 by (simp add: queries_append)
  ultimately show ?case by blast
qed

lemma getMovies_cacheMiss_queries:
  "\<exists>es. trace (getMovies_cacheMiss P request response v) = trace v @ es
        \<and> list_all (\<lambda>q. stmt_table q = ''movies'') (queries es)"
proof (cases "tmdb P (getMovies_url P request) []")
  case (Inl e)
  then show ?thesis
    by (simp add: getMovies_cacheMiss_def superagent_get_def handleError_def response_send_def)
next
  case (Inr p)
  let ?v1 = "v\<lparr>trace := trace v @ [Get (getMovies_url P request) []]\<rparr>"
  obtain es where es:
    "trace (save_rows P ''movies'' Movie_columns
              (map (\<lambda>e. Movie_values (Movie_new e) (data.id' request)) p) ?v1) = trace ?v1 @ es"
    "list_all (\<lambda>q. stmt_table q = ''movies'') (queries es)"
    using save_rows_queries by blast
  have "getMovies_cacheMiss P request response v
          = response_send response 200 (Movies (slice 0 2 (map Movie_new p)))
              (save_rows P ''movies'' Movie_columns
                 (map (\<lambda>e. Movie_values (Movie_new e) (data.id' request)) p) ?v1)"
    by (simp add: getMovies_cacheMiss_def superagent_get_def Inr movies_loop)
  then have "trace (getMovies_cacheMiss P request response v)
          = trace v @ (Get (getMovies_url P request) [] # es
                        @ [Send 200 (Movies (slice 0 2 (map Movie_new p)))])"
    using es(1) by (simp add: response_send_def)
  moreover have "list_all (\<lambda>q. stmt_table q = ''movies'')
     (queries (Get (getMovies_url P request) [] # es
                @ [Send 200 (Movies (slice 0 2 (map Movie_new p)))]))"
    using es(2) by (simp add: queries_append)
  ultimately show ?thesis by blast
qed

lemma getMovies_queries:
  "list_all (\<lambda>q. stmt_table q = ''movies'') (queries (added w (getMovies P request response w)))"
proof -
  let ?q = "Select ''movies'' ''location_id'' (VInt (data.id' request))"
  let ?v = "w\<lparr>issued := Suc (issued w), trace := trace w @ [Query ?q]\<rparr>"
  obtain es where es: "trace (getMovies_cacheMiss P request response ?v) = trace ?v @ es"
    "list_all (\<lambda>q. stmt_table q = ''movies'') (queries es)"
    using getMovies_cacheMiss_queries by blast
  have miss: "added w (getMovies_cacheMiss P request response ?v) = Query ?q # es"
    by (rule added_append) (simp add: es(1))
  show ?thesis
    using miss es(2)
    by (simp add: getMovies_def Event_lookup_def lookup_def client_query_def Movie_tableName_def
          handleError_def getMovies_cacheHit_def response_send_def added_def Let_def
          split: option.split)
qed

section \<open>Location and weather\<close>

lemma lookupLocation_miss:
  "location_misses P w (query loc) \<Longrightarrow>
   lookupLocation P loc w
     = location_options.cacheMiss loc
         (w\<lparr>issued := Suc (issued w),
            trace := trace w @ [Query (Select ''locations'' ''search_query'' (VStr (query loc)))]\<rparr>)"
  by (auto simp: location_misses_def lookupLocation_def select_ok split: option.splits)

lemma delete_ok:
  "\<not> fault P (issued w) \<Longrightarrow> tables w t = Some rs \<Longrightarrow>
   forget (deleteByLocationId P t l w)
     = w\<lparr>tables := (tables w)(t \<mapsto> filter (\<lambda>r. map_of r ''location_id'' \<noteq> Some (VInt l)) rs),
         issued := Suc (issued w),
         trace := trace w @ [Query (Delete t ''location_id'' (VInt l))]\<rparr>"
  by (simp add: deleteByLocationId_def client_query_def forget_def Let_def)

lemma delete_trace:
  "\<exists>es. trace (forget (deleteByLocationId P t l w)) = trace w @ es \<and> gets es = []"
  by (cases "tables w t")
     (simp_all add: deleteByLocationId_def client_query_def forget_def Let_def)

lemma getWeather_cacheMiss_gets:
  assumes "trace v = trace w @ pre" "gets pre = []"
  shows "gets (added w (getWeather_cacheMiss P request response v)) = [getWeather_url P request]"
proof (cases "darksky P (getWeather_url P request) []")
  case (Inl e)
  have "trace (getWeather_cacheMiss P request response v)
          = trace w @ (pre @ [Get (getWeather_url P request) [], ConsoleError e,
                              Send 500 (Text ''Sorry, something went wrong'')])"
    using assms(1)
    by (simp add: getWeather_cacheMiss_def superagent_get_def Inl handleError_def
          response_send_def)
  then have "added w (getWeather_cacheMiss P request response v)
          = pre @ [Get (getWeather_url P request) [], ConsoleError e,
                   Send 500 (Text ''Sorry, something went wrong'')]"
    by (rule added_append)
  then show ?thesis using assms(2) by (simp add: gets_append)
next
  case (Inr p)
  let ?v1 = "v\<lparr>trace := trace v @ [Get (getWeather_url P request) []]\<rparr>"
  let ?vss = "map (\<lambda>s. Weather_values s (data.id' request)) (stamp P (ticks v) p)"
  obtain es where es: "trace (save_rows P ''weathers'' Weather_columns ?vss ?v1) = trace ?v1 @ es"
    "gets es = []"
    using save_rows_trace by blast
  have "getWeather_cacheMiss P request response v
          = response_send response 200 (Weathers (stamp P (ticks v) p))
              ((save_rows P ''weathers'' Weather_columns ?vss ?v1)
                 \<lparr>ticks := ticks v + length p\<rparr>)"
    by (simp add: getWeather_cacheMiss_def superagent_get_def Inr weather_loop)
  then have "trace (getWeather_cacheMiss P request response v)
          = trace w @ (pre @ Get (getWeather_url P request) [] # es
                         @ [Send 200 (Weathers (stamp P (ticks v) p))])"
    using es(1) assms(1) by (simp add: response_send_def)
  then have "added w (getWeather_cacheMiss P request response v)
          = pre @ Get (getWeather_url P request) [] # es
              @ [Send 200 (Weathers (stamp P (ticks v) p))]"
    by (rule added_append)
  then show ?thesis using assms(2) es(2) by (simp add: gets_append)
qed

lemma getWeather_hit:
  assumes "hits P w Weather_tableName (data.id' request)"
  shows "getWeather P request response w
     = getWeather_cacheHit P request response
         \<lparr>rows = rows_of w ''weathers'' (data.id' request),
          rowCount = length (rows_of w ''weathers'' (data.id' request))\<rparr>
         (w\<lparr>issued := Suc (issued w),
            trace := trace w @ [Query (Select ''weathers'' ''location_id''
                                         (VInt (data.id' request)))]\<rparr>)"
  using assms
  by (simp add: getWeather_def Weather_lookup_def lookup_hit Weather_tableName_def)

lemma getWeather_fresh:
  assumes "hits P w Weather_tableName (data.id' request)"
    and "first_created_at w (data.id' request) = Some (VInt c)"
    and "clock P (ticks w) - c \<le> 15000"
  shows "getWeather P request response w
     = w\<lparr>issued := Suc (issued w), ticks := Suc (ticks w),
         trace := trace w @ [Query (Select ''weathers'' ''location_id'' (VInt (data.id' request))),
                              Send 200 (Rows (rows_of w ''weathers'' (data.id' request)))]\<rparr>"
proof -
  obtain r rest where r: "rows_of w ''weathers'' (data.id' request) = r # rest"
    using assms(1) by (cases "rows_of w ''weathers'' (data.id' request)")
      (simp_all add: hits_def Weather_tableName_def)
  have c: "map_of r ''created_at'' = Some (VInt c)"
    using assms(2) r by (simp add: first_created_at_def Weather_tableName_def)
  show ?thesis
    using assms(3)
    by (simp add: getWeather_hit [OF assms(1)] getWeather_cacheHit_def r Date_now_def
          ageOfResults_def c timeouts_weathers_def response_send_def)
qed

lemma getWeather_stale:
  assumes "hits P w Weather_tableName (data.id' request)"
    and "first_created_at w (data.id' request) = Some (VInt c)"
    and "clock P (ticks w) - c > 15000"
  shows "getWeather P request response w
     = getWeather_cacheMiss P request response
         (forget (deleteByLocationId P ''weathers'' (data.id' request)
            (w\<lparr>issued := Suc (issued w), ticks := Suc (ticks w),
               trace := trace w @ [Query (Select ''weathers'' ''location_id''
                                            (VInt (data.id' request))),
                                    ConsoleLog [''Invalid weather data for location: '',
                                                data.search_query request]]\<rparr>)))"
proof -
  obtain r rest where r: "rows_of w ''weathers'' (data.id' request) = r # rest"
    using assms(1) by (cases "rows_of w ''weathers'' (data.id' request)")
      (simp_all add: hits_def Weather_tableName_def)
  have c: "map_of r ''created_at'' = Some (VInt c)"
    using assms(2) r by (simp add: first_created_at_def Weather_tableName_def)
  show ?thesis
    using assms(3)
    by (simp add: getWeather_hit [OF assms(1)] getWeather_cacheHit_def r Date_now_def
          ageOfResults_def c timeouts_weathers_def Weather_deleteByLocationId_def
          Weather_tableName_def Let_def)
qed

lemma getWeather_cacheMiss_world:
  assumes "darksky P (getWeather_url P request) [] = Inr p"
  shows "getWeather_cacheMiss P request response v
     = response_send response 200 (Weathers (stamp P (ticks v) p))
         ((save_rows P ''weathers'' Weather_columns
             (map (\<lambda>s. Weather_values s (data.id' request)) (stamp P (ticks v) p))
             (v\<lparr>trace := trace v @ [Get (getWeather_url P request) []]\<rparr>))
            \<lparr>ticks := ticks v + length p\<rparr>)"
  by (simp add: getWeather_cacheMiss_def superagent_get_def assms weather_loop)

lemma length_stamp: "length (stamp P n ds) = length ds"
  by (induction ds arbitrary: n) simp_all

lemma getWeather_cacheMiss_table:
  assumes "darksky P (getWeather_url P request) [] = Inr p"
    and "tables v ''weathers'' = Some rs"
    and "ids_below (serial v ''weathers'') rs"
    and "\<And>k. k < length p \<Longrightarrow> \<not> fault P (issued v + k)"
  shows "table (getWeather_cacheMiss P request response v) ''weathers''
     = rs @ new_rows (serial v ''weathers'') Weather_columns
              (map (\<lambda>s. Weather_values s (data.id' request)) (stamp P (ticks v) p))"
proof -
  let ?v1 = "v\<lparr>trace := trace v @ [Get (getWeather_url P request) []]\<rparr>"
  let ?vss = "map (\<lambda>s. Weather_values s (data.id' request)) (stamp P (ticks v) p)"
  have "tables (save_rows P ''weathers'' Weather_columns ?vss ?v1) ''weathers''
          = Some (rs @ new_rows (serial ?v1 ''weathers'') Weather_columns ?vss)"
  proof (rule save_rows_all)
    show "tables ?v1 ''weathers'' = Some rs" using assms(2) by simp
    show "ids_below (serial ?v1 ''weathers'') rs" using assms(3) by simp
    fix k assume "k < length ?vss"
    then show "\<not> fault P (issued ?v1 + k)" using assms(4) by (simp add: length_stamp)
  qed
  then show ?thesis
    by (simp add: getWeather_cacheMiss_world [OF assms(1)] table_def response_send_def)
qed

section \<open>What the handlers leave alone\<close>

lemma rows_of_cong: "tables w' t = tables w t \<Longrightarrow> rows_of w' t l = rows_of w t l"
  by (simp add: rows_of_def)

lemma lookup_cases:
  "lookup P opts w =
     (let v = w\<lparr>issued := Suc (issued w),
                 trace := trace w @ [Query (Select (options.tableName opts) ''location_id''
                                              (VInt (location opts)))]\<rparr>
      in if fault P (issued w) \<or> tables w (options.tableName opts) = None
         then handleError DbError None v
         else if rows_of w (options.tableName opts) (location opts) \<noteq> []
         then options.cacheHit opts
                \<lparr>rows = rows_of w (options.tableName opts) (location opts),
                 rowCount = length (rows_of w (options.tableName opts) (location opts))\<rparr> v
         else options.cacheMiss opts v)"
proof (cases "tables w (options.tableName opts)")
  case None
  then show ?thesis by (simp add: lookup_def client_query_def Let_def)
next
  case (Some rs)
  then show ?thesis by (simp add: lookup_def client_query_def rows_of_def Let_def)
qed

lemma tables_handleError: "tables (handleError e r w) = tables w"
  by (cases r) (simp_all add: handleError_def response_send_def)

lemma tables_response_send: "tables (response_send r s b w) = tables w"
  by (simp add: response_send_def)

lemma save_row_rows_of:
  assumes "map_of (zip cols vs) ''location_id'' = Some (VInt l')" "l' \<noteq> l"
  shows "rows_of (save_row P t cols vs w) T l = rows_of w T l"
proof (cases "T = t")
  case False
  then show ?thesis by (intro rows_of_cong save_row_other)
next
  case True
  show ?thesis
  proof (cases "tables w t")
    case None
    then show ?thesis by (simp add: True save_row_None rows_of_def)
  next
    case (Some rs)
    then show ?thesis using assms by (simp add: True save_row_Some rows_of_def)
  qed
qed

lemma save_rows_rows_of:
  assumes "\<And>vs. vs \<in> set vss \<Longrightarrow> map_of (zip cols vs) ''location_id'' = Some (VInt l')"
    and "l' \<noteq> l"
  shows "rows_of (save_rows P t cols vss w) T l = rows_of w T l"
  using assms(1)
proof (induction vss arbitrary: w)
  case Nil
  show ?case by simp
next
  case (Cons vs vss)
  have "rows_of (save_rows P t cols vss (save_row P t cols vs w)) T l
          = rows_of (save_row P t cols vs w) T l"
    by (rule Cons.IH) (simp add: Cons.prems)
  also have "\<dots> = rows_of w T l"
    by (rule save_row_rows_of [OF _ assms(2)]) (simp add: Cons.prems)
  finally show ?case by simp
qed

lemma getEvents_cacheMiss_rows_of:
  assumes "data.id' request \<noteq> l"
  shows "rows_of (getEvents_cacheMiss P request response v) T l = rows_of v T l"
proof (cases "eventbrite P (getEvents_url P request) []")
  case (Inl e)
  then show ?thesis
    by (simp add: getEvents_cacheMiss_def superagent_get_def rows_of_def tables_handleError)
next
  case (Inr p)
  let ?v1 = "v\<lparr>trace := trace v @ [Get (getEvents_url P request) []]\<rparr>"
  let ?vss = "map (\<lambda>e. Event_values (Event_new P e) (data.id' request)) p"
  have "getEvents_cacheMiss P request response v
          = response_send response 200 (Events (slice 0 2 (map (Event_new P) p)))
              (save_rows P ''events'' Event_columns ?vss ?v1)"
    by (simp add: getEvents_cacheMiss_def superagent_get_def Inr events_loop)
  moreover have "rows_of (save_rows P ''events'' Event_columns ?vss ?v1) T l = rows_of ?v1 T l"
    by (rule save_rows_rows_of [OF _ assms])
       (auto simp: Event_columns_def Event_values_def)
  ultimately show ?thesis by (simp add: rows_of_def tables_response_send)
qed

lemma getMovies_cacheMiss_rows_of:
  assumes "data.id' request \<noteq> l"
  shows "rows_of (getMovies_cacheMiss P request response v) T l = rows_of v T l"
proof (cases "tmdb P (getMovies_url P request) []")
  case (Inl e)
  then show ?thesis
    by (simp add: getMovies_cacheMiss_def superagent_get_def rows_of_def tables_handleError)
next
  case (Inr p)
  let ?v1 = "v\<lparr>trace := trace v @ [Get (getMovies_url P request) []]\<rparr>"
  let ?vss = "map (\<lambda>e. Movie_values (Movie_new e) (data.id' request)) p"
  have "getMovies_cacheMiss P request response v
          = response_send response 200 (Movies (slice 0 2 (map Movie_new p)))
              (save_rows P ''movies'' Movie_columns ?vss ?v1)"
    by (simp add: getMovies_cacheMiss_def superagent_get_def Inr movies_loop)
  moreover have "rows_of (save_rows P ''movies'' Movie_columns ?vss ?v1) T l = rows_of ?v1 T l"
    by (rule save_rows_rows_of [OF _ assms])
       (auto simp: Movie_columns_def Movie_values_def)
  ultimately show ?thesis by (simp add: rows_of_def tables_response_send)
qed

lemma getYelp_cacheMiss_rows_of:
  assumes "data.id' request \<noteq> l"
  shows "rows_of (getYelp_cacheMiss P request response v) T l = rows_of v T l"
proof (cases "yelp_fusion P (getYelp_url request) (getYelp_headers P)")
  case (Inl e)
  then show ?thesis
    by (simp add: getYelp_cacheMiss_def superagent_get_def rows_of_def tables_handleError)
next
  case (Inr p)
  let ?v1 = "v\<lparr>trace := trace v @ [Get (getYelp_url request) (getYelp_headers P)]\<rparr>"
  let ?vss = "map (\<lambda>e. Yelp_values (Yelp_new e) (data.id' request)) p"
  have "getYelp_cacheMiss P request response v
          = response_send response 200 (Yelps (slice 0 2 (map Yelp_new p)))
              (save_rows P ''yelp'' Yelp_columns ?vss ?v1)"
    by (simp add: getYelp_cacheMiss_def superagent_get_def Inr yelp_loop)
  moreover have "rows_of (save_rows P ''yelp'' Yelp_columns ?vss ?v1) T l = rows_of ?v1 T l"
    by (rule save_rows_rows_of [OF _ assms])
       (auto simp: Yelp_columns_def Yelp_values_def)
  ultimately show ?thesis by (simp add: rows_of_def tables_response_send)
qed

lemma getEvents_cacheMiss_other:
  assumes "T \<noteq> ''events''"
  shows "tables (getEvents_cacheMiss P request response v) T = tables v T"
proof (cases "eventbrite P (getEvents_url P request) []")
  case (Inl e)
  then show ?thesis
    by (simp add: getEvents_cacheMiss_def superagent_get_def tables_handleError)
next
  case (Inr p)
  then show ?thesis using assms
    by (simp add: getEvents_cacheMiss_def superagent_get_def events_loop tables_response_send
          save_rows_other)
qed

lemma getMovies_cacheMiss_other:
  assumes "T \<noteq> ''movies''"
  shows "tables (getMovies_cacheMiss P request response v) T = tables v T"
proof (cases "tmdb P (getMovies_url P request) []")
  case (Inl e)
  then show ?thesis
    by (simp add: getMovies_cacheMiss_def superagent_get_def tables_handleError)
next
  case (Inr p)
  then show ?thesis using assms
    by (simp add: getMovies_cacheMiss_def superagent_get_def movies_loop tables_response_send
          save_rows_other)
qed

lemma getYelp_cacheMiss_other:
  assumes "T \<noteq> ''yelp''"
  shows "tables (getYelp_cacheMiss P request response v) T = tables v T"
proof (cases "yelp_fusion P (getYelp_url request) (getYelp_headers P)")
  case (Inl e)
  then show ?thesis
    by (simp add: getYelp_cacheMiss_def superagent_get_def tables_handleError)
next
  case (Inr p)
  then show ?thesis using assms
    by (simp add: getYelp_cacheMiss_def superagent_get_def yelp_loop tables_response_send
          save_rows_other)
qed

lemma getWeather_cacheMiss_other:
  assumes "T \<noteq> ''weathers''"
  shows "tables (getWeather_cacheMiss P request response v) T = tables v T"
proof (cases "darksky P (getWeather_url P request) []")
  case (Inl e)
  then show ?thesis
    by (simp add: getWeather_cacheMiss_def superagent_get_def tables_handleError)
next
  case (Inr p)
  then show ?thesis using assms
    by (simp add: getWeather_cacheMiss_world tables_response_send save_rows_other)
qed

lemma delete_other:
  "T \<noteq> t \<Longrightarrow> tables (forget (deleteByLocationId P t l w)) T = tables w T"
  by (cases "tables w t")
     (simp_all add: deleteByLocationId_def client_query_def forget_def Let_def)

lemma getWeather_other:
  assumes "T \<noteq> ''weathers''"
  shows "tables (getWeather P request response w) T = tables w T"
proof -
  have hit: "tables (getWeather_cacheHit P request response res v) T = tables v T" for res v
    using assms
    by (cases "rows res")
       (simp_all add: getWeather_cacheHit_def tables_handleError Date_now_def Let_def
          tables_response_send getWeather_cacheMiss_other delete_other
          Weather_deleteByLocationId_def Weather_tableName_def)
  show ?thesis
    using assms
    by (simp add: getWeather_def Weather_lookup_def lookup_cases Let_def tables_handleError hit
          getWeather_cacheMiss_other)
qed

lemma getLocation_other:
  assumes "T \<noteq> ''locations''"
  shows "tables (getLocation P q response w) T = tables w T"
proof -
  have save: "tables (snd (Location_save P loc v)) T = tables v T" for loc v
    using assms
    by (cases "tables v ''locations''")
       (simp_all add: Location_save_def client_query_def Let_def split: list.splits)
  have miss: "tables (getLocation_cacheMiss P q response v) T = tables v T" for v
  proof (cases "geocode P (getLocation_url P q) []")
    case (Inl e)
    then show ?thesis
      by (simp add: getLocation_cacheMiss_def superagent_get_def tables_handleError)
  next
    case (Inr g)
    show ?thesis
    proof (cases "Location_new q g")
      case (Inl e)
      then show ?thesis using Inr
        by (simp add: getLocation_cacheMiss_def superagent_get_def tables_handleError)
    next
      case Inr2: (Inr loc)
      let ?v1 = "v\<lparr>trace := trace v @ [Get (getLocation_url P q) []]\<rparr>"
      have "tables (snd (Location_save P loc ?v1)) T = tables ?v1 T" by (rule save)
      then show ?thesis using Inr Inr2
        by (cases "Location_save P loc ?v1")
           (auto simp: getLocation_cacheMiss_def superagent_get_def tables_response_send
              split: sum.splits)
    qed
  qed
  show ?thesis
    by (cases "tables w ''locations''")
       (simp_all add: getLocation_def lookupLocation_def client_query_def Let_def
          console_error_def getLocation_cacheHit_def tables_response_send miss
          split: list.splits)
qed

lemma getEvents_keeps:
  assumes "rows_of w T l \<noteq> [] \<or> T \<noteq> ''events''"
  shows "rows_of (getEvents P request response w) T l = rows_of w T l"
proof -
  let ?v = "w\<lparr>issued := Suc (issued w),
               trace := trace w @ [Query (Select ''events'' ''location_id''
                                            (VInt (data.id' request)))]\<rparr>"
  have miss: "rows_of (getEvents_cacheMiss P request response ?v) T l = rows_of w T l"
    if "rows_of w ''events'' (data.id' request) = []"
  proof (cases "T = ''events''")
    case True
    then have "data.id' request \<noteq> l" using assms that by auto
    then have "rows_of (getEvents_cacheMiss P request response ?v) T l = rows_of ?v T l"
      by (rule getEvents_cacheMiss_rows_of)
    then show ?thesis by (simp add: rows_of_def)
  next
    case False
    then show ?thesis by (simp add: rows_of_def getEvents_cacheMiss_other)
  qed
  show ?thesis
    using miss
    by (simp add: getEvents_def Event_lookup_def lookup_cases Let_def Event_tableName_def
          getEvents_cacheHit_def rows_of_def tables_handleError tables_response_send)
qed

lemma getMovies_keeps:
  assumes "rows_of w T l \<noteq> [] \<or> T \<noteq> ''movies''"
  shows "rows_of (getMovies P request response w) T l = rows_of w T l"
proof -
  let ?v = "w\<lparr>issued := Suc (issued w),
               trace := trace w @ [Query (Select ''movies'' ''location_id''
                                            (VInt (data.id' request)))]\<rparr>"
  have miss: "rows_of (getMovies_cacheMiss P request response ?v) T l = rows_of w T l"
    if "rows_of w ''movies'' (data.id' request) = []"
  proof (cases "T = ''movies''")
    case True
    then have "data.id' request \<noteq> l" using assms that by auto
    then have "rows_of (getMovies_cacheMiss P request response ?v) T l = rows_of ?v T l"
      by (rule getMovies_cacheMiss_rows_of)
    then show ?thesis by (simp add: rows_of_def)
  next
    case False
    then show ?thesis by (simp add: rows_of_def getMovies_cacheMiss_other)
  qed
  show ?thesis
    using miss
    by (simp add: getMovies_def Event_lookup_def lookup_cases Let_def Movie_tableName_def
          getMovies_cacheHit_def rows_of_def tables_handleError tables_response_send)
qed

lemma getYelp_keeps:
  assumes "rows_of w T l \<noteq> [] \<or> T \<noteq> ''yelp''"
  shows "rows_of (getYelp P request response w) T l = rows_of w T l"
proof -
  let ?v = "w\<lparr>issued := Suc (issued w),
               trace := trace w @ [Query (Select ''yelp'' ''location_id''
                                            (VInt (data.id' request)))]\<rparr>"
  have miss: "rows_of (getYelp_cacheMiss P request response ?v) T l = rows_of w T l"
    if "rows_of w ''yelp'' (data.id' request) = []"
  proof (cases "T = ''yelp''")
    case True
    then have "data.id' request \<noteq> l" using assms that by auto
    then have "rows_of (getYelp_cacheMiss P request response ?v) T l = rows_of ?v T l"
      by (rule getYelp_cacheMiss_rows_of)
    then show ?thesis by (simp add: rows_of_def)
  next
    case False
    then show ?thesis by (simp add: rows_of_def getYelp_cacheMiss_other)
  qed
  show ?thesis
    using miss
    by (simp add: getYelp_def Yelp_lookup_def lookup_cases Let_def Yelp_tableName_def
          getYelp_cacheHit_def rows_of_def tables_handleError tables_response_send)
qed

lemma app_keeps:
  assumes "rows_of w T l \<noteq> []" and "T \<noteq> ''weathers''" "T \<noteq> ''locations''"
  shows "rows_of (app P r w) T l = rows_of w T l"
proof (cases r)
  case (GET_location q)
  then show ?thesis using assms by (simp add: rows_of_def getLocation_other)
next
  case (GET_weather d)
  then show ?thesis using assms by (simp add: rows_of_def getWeather_other)
next
  case (GET_events d)
  then show ?thesis using assms by (simp add: getEvents_keeps)
next
  case (GET_movies d)
  then show ?thesis using assms by (simp add: getMovies_keeps)
next
  case (GET_yelp d)
  then show ?thesis using assms by (simp add: getYelp_keeps)
qed

lemma fold_app_keeps:
  assumes "rows_of w T l \<noteq> []" and "T \<noteq> ''weathers''" "T \<noteq> ''locations''"
  shows "rows_of (fold (app P) rs w) T l = rows_of w T l"
  using assms(1)
proof (induction rs arbitrary: w)
  case Nil
  show ?case by simp
next
  case (Cons r rs)
  have k: "rows_of (app P r w) T l = rows_of w T l"
    by (rule app_keeps [OF Cons.prems assms(2,3)])
  then have "rows_of (fold (app P) rs (app P r w)) T l = rows_of (app P r w) T l"
    using Cons.IH Cons.prems by simp
  then show ?case using k by simp
qed

lemma hit_sends_rows:
  assumes "rows_of w' t l = stored" "stored \<noteq> []" "\<not> fault P (issued w')"
  shows "lookup P \<lparr>options.tableName = t, location = l,
                    cacheHit = (\<lambda>result. response_send response 200 (Rows (rows result))),
                    cacheMiss = miss\<rparr> w'
     = w'\<lparr>issued := Suc (issued w'),
          trace := trace w' @ [Query (Select t ''location_id'' (VInt l)), Send 200 (Rows stored)]\<rparr>"
proof -
  have "tables w' t \<noteq> None"
    using assms(1,2) by (cases "tables w' t") (auto simp: rows_of_def)
  then show ?thesis using assms by (auto simp: lookup_cases Let_def response_send_def)
qed

section \<open>The first resolution of a search text\<close>


section \<open>The rows read back after a cache miss\<close>


















section \<open>The claims\<close>

subsection \<open>C1\<close>

text \<open>
  C1. A weather request that finds cached rows for the location (the lookup is answered,
  and the first row returned carries the integer \<open>c\<close> as its \<^verbatim>\<open>created_at\<close>), with \<open>now\<close> the
  reading of \<^verbatim>\<open>Date.now()\<close> in \<^verbatim>\<open>cacheHit\<close>:
  \<^item> when \<open>now - c > 15000\<close>, exactly one provider call is made (the one URL of
    \<^verbatim>\<open>getWeather\<close>), and, the \<^verbatim>\<open>DELETE\<close> being executed, the request goes on as the cache-miss
    path from a store in which no weather row of that location is left (the rows of
    other locations are kept);
  \<^item> when \<open>now - c \<le> 15000\<close>, the only effects are the \<^verbatim>\<open>SELECT\<close> and the response with the
    stored rows as they were read: no statement deletes, no provider is called, no
    table changes.
\<close>

theorem weather_hit_stale_or_fresh:
  assumes "hits P w Weather_tableName (data.id' request)"
    and "first_created_at w (data.id' request) = Some (VInt c)"
  shows "(clock P (ticks w) - c > 15000 \<longrightarrow>
           gets (added w (getWeather P request response w)) = [getWeather_url P request]
           \<and> (\<not> fault P (Suc (issued w)) \<longrightarrow>
               (let v = w\<lparr>tables := (tables w)(Weather_tableName \<mapsto>
                                       without_location w Weather_tableName (data.id' request)),
                          issued := issued w + 2, ticks := Suc (ticks w),
                          trace := trace w @
                            [Query (Select Weather_tableName ''location_id''
                                      (VInt (data.id' request))),
                             ConsoleLog [''Invalid weather data for location: '',
                                         data.search_query request],
                             Query (Delete Weather_tableName ''location_id''
                                      (VInt (data.id' request)))]\<rparr>
                in rows_of v Weather_tableName (data.id' request) = []
                   \<and> getWeather P request response w
                       = getWeather_cacheMiss P request response v)))
       \<and> (clock P (ticks w) - c \<le> 15000 \<longrightarrow>
           getWeather P request response w
             = w\<lparr>issued := Suc (issued w), ticks := Suc (ticks w),
                 trace := trace w @
                   [Query (Select Weather_tableName ''location_id'' (VInt (data.id' request))),
                    Send 200 (Rows (rows_of w Weather_tableName (data.id' request)))]\<rparr>)"
proof (intro conjI impI)
  assume s: "clock P (ticks w) - c > 15000"
  let ?w1 = "w\<lparr>issued := Suc (issued w), ticks := Suc (ticks w),
               trace := trace w @ [Query (Select ''weathers'' ''location_id''
                                            (VInt (data.id' request))),
                                    ConsoleLog [''Invalid weather data for location: '',
                                                data.search_query request]]\<rparr>"
  let ?w2 = "forget (deleteByLocationId P ''weathers'' (data.id' request) ?w1)"
  have g: "getWeather P request response w = getWeather_cacheMiss P request response ?w2"
    by (rule getWeather_stale [OF assms s])
  obtain es where es: "trace ?w2 = trace ?w1 @ es" "gets es = []"
    using delete_trace by blast
  have "gets (added w (getWeather_cacheMiss P request response ?w2)) = [getWeather_url P request]"
    by (rule getWeather_cacheMiss_gets
          [where pre = "[Query (Select ''weathers'' ''location_id'' (VInt (data.id' request))),
                         ConsoleLog [''Invalid weather data for location: '',
                                     data.search_query request]] @ es"])
       (simp_all add: es gets_append)
  then show "gets (added w (getWeather P request response w)) = [getWeather_url P request]"
    by (simp add: g)
next
  assume s: "clock P (ticks w) - c > 15000" and nf: "\<not> fault P (Suc (issued w))"
  let ?w1 = "w\<lparr>issued := Suc (issued w), ticks := Suc (ticks w),
               trace := trace w @ [Query (Select ''weathers'' ''location_id''
                                            (VInt (data.id' request))),
                                    ConsoleLog [''Invalid weather data for location: '',
                                                data.search_query request]]\<rparr>"
  obtain rs where rs: "tables w ''weathers'' = Some rs"
    using assms(1) by (cases "tables w ''weathers''")
      (simp_all add: hits_def rows_of_def Weather_tableName_def)
  have d: "forget (deleteByLocationId P ''weathers'' (data.id' request) ?w1)
     = w\<lparr>tables := (tables w)(''weathers'' \<mapsto>
              filter (\<lambda>r. map_of r ''location_id'' \<noteq> Some (VInt (data.id' request))) rs),
         issued := issued w + 2, ticks := Suc (ticks w),
         trace := trace w @
           [Query (Select ''weathers'' ''location_id'' (VInt (data.id' request))),
            ConsoleLog [''Invalid weather data for location: '', data.search_query request],
            Query (Delete ''weathers'' ''location_id'' (VInt (data.id' request)))]\<rparr>"
    using nf rs by (simp add: delete_ok [where rs = rs])
  show "let v = w\<lparr>tables := (tables w)(Weather_tableName \<mapsto>
                                       without_location w Weather_tableName (data.id' request)),
                          issued := issued w + 2, ticks := Suc (ticks w),
                          trace := trace w @
                            [Query (Select Weather_tableName ''location_id''
                                      (VInt (data.id' request))),
                             ConsoleLog [''Invalid weather data for location: '',
                                         data.search_query request],
                             Query (Delete Weather_tableName ''location_id''
                                      (VInt (data.id' request)))]\<rparr>
                in rows_of v Weather_tableName (data.id' request) = []
                   \<and> getWeather P request response w
                       = getWeather_cacheMiss P request response v"
    by (simp add: getWeather_stale [OF assms s] d Let_def without_location_def table_def rs
          Weather_tableName_def rows_of_def)
next
  assume "clock P (ticks w) - c \<le> 15000"
  then show "getWeather P request response w
             = w\<lparr>issued := Suc (issued w), ticks := Suc (ticks w),
                 trace := trace w @
                   [Query (Select Weather_tableName ''location_id'' (VInt (data.id' request))),
                    Send 200 (Rows (rows_of w Weather_tableName (data.id' request)))]\<rparr>"
    using getWeather_fresh [OF assms] by (simp add: Weather_tableName_def)
qed

text \<open>
  C1, at a concrete store: one weather row of age exactly 15000 ms is served as stored; at
  age 15001 ms it is deleted, the provider is called once, and the table then holds the
  one fresh row.
\<close>

theorem weather_hit_stale_or_fresh_witness:
  "hits boundary_platform cached Weather_tableName (data.id' demo_data)
   \<and> hits past_platform cached Weather_tableName (data.id' demo_data)
   \<and> first_created_at cached (data.id' demo_data) = Some (VInt 90000)
   \<and> clock boundary_platform (ticks cached) - 90000 \<le> 15000
   \<and> clock past_platform (ticks cached) - 90000 > 15000
   \<and> \<not> fault past_platform (Suc (issued cached))
   \<and> added cached (getWeather boundary_platform demo_data Response cached)
       = [Query (Select ''weathers'' ''location_id'' (VInt 1)),
          Send 200 (Rows [[(''id'', VInt 1), (''forecast'', VStr ''Rain''),
                           (''time'', VStr ''Fri Nov 01 2019''), (''created_at'', VInt 90000),
                           (''location_id'', VInt 1)]])]
   \<and> tables (getWeather boundary_platform demo_data Response cached) = tables cached
   \<and> gets (added cached (getWeather past_platform demo_data Response cached))
       = [''https://api.darksky.net/forecast/KEY/47.48,-122.19'']
   \<and> table (getWeather past_platform demo_data Response cached) ''weathers''
       = [[(''id'', VInt 2), (''forecast'', VStr ''Rain''),
           (''time'', VStr ''Sun Nov 01 2026''), (''created_at'', VInt 105002),
           (''location_id'', VInt 1)]]"
proof -
  have h: "hits boundary_platform cached Weather_tableName (data.id' demo_data)"
    "hits past_platform cached Weather_tableName (data.id' demo_data)"
    by (simp_all add: hits_def boundary_platform_def past_platform_def demo_platform_def
          cached_def schema_def rows_of_def Weather_tableName_def demo_data_def)
  have r: "rows_of cached Weather_tableName (data.id' demo_data)
             = [[(''id'', VInt 1), (''forecast'', VStr ''Rain''),
                 (''time'', VStr ''Fri Nov 01 2019''), (''created_at'', VInt 90000),
                 (''location_id'', VInt 1)]]"
    by (simp add: cached_def schema_def rows_of_def Weather_tableName_def demo_data_def)
  have c: "first_created_at cached (data.id' demo_data) = Some (VInt 90000)"
    by (simp add: first_created_at_def r)
  have k: "clock boundary_platform (ticks cached) - 90000 \<le> 15000"
    "clock past_platform (ticks cached) - 90000 > 15000"
    "\<not> fault past_platform (Suc (issued cached))"
    by (simp_all add: boundary_platform_def past_platform_def demo_platform_def cached_def
          schema_def)
  note fresh = weather_hit_stale_or_fresh [OF h(1) c, of Response, THEN conjunct2, rule_format, OF k(1)]
  note stale = weather_hit_stale_or_fresh [OF h(2) c, of Response, THEN conjunct1, rule_format, OF k(2)]
  have g: "gets (added cached (getWeather past_platform demo_data Response cached))
       = [''https://api.darksky.net/forecast/KEY/47.48,-122.19'']"
    using stale [THEN conjunct1]
    by (simp add: getWeather_url_def past_platform_def demo_platform_def demo_data_def)
  have t: "table (getWeather past_platform demo_data Response cached) ''weathers''
       = [[(''id'', VInt 2), (''forecast'', VStr ''Rain''),
           (''time'', VStr ''Sun Nov 01 2026''), (''created_at'', VInt 105002),
           (''location_id'', VInt 1)]]"
  proof -
    let ?v = "cached\<lparr>tables := (tables cached)(Weather_tableName \<mapsto>
                         without_location cached Weather_tableName (data.id' demo_data)),
                issued := issued cached + 2, ticks := Suc (ticks cached),
                trace := trace cached @
                  [Query (Select Weather_tableName ''location_id'' (VInt (data.id' demo_data))),
                   ConsoleLog [''Invalid weather data for location: '',
                               data.search_query demo_data],
                   Query (Delete Weather_tableName ''location_id''
                            (VInt (data.id' demo_data)))]\<rparr>"
    have e: "getWeather past_platform demo_data Response cached
            = getWeather_cacheMiss past_platform demo_data Response ?v"
      using stale [THEN conjunct2, rule_format, OF k(3), unfolded Let_def, THEN conjunct2] .
    have p: "darksky past_platform (getWeather_url past_platform demo_data) []
               = Inr [\<lparr>day.summary = ''Rain'', time = 1572566400\<rparr>]"
      by (simp add: past_platform_def demo_platform_def)
    have tv: "tables ?v ''weathers'' = Some []"
      by (simp add: Weather_tableName_def without_location_def table_def cached_def
            schema_def demo_data_def)
    have sv: "serial ?v ''weathers'' = 2" "ticks ?v = 1"
      by (simp_all add: cached_def schema_def)
    have "table (getWeather_cacheMiss past_platform demo_data Response ?v) ''weathers''
       = [] @ new_rows (serial ?v ''weathers'') Weather_columns
           (map (\<lambda>s. Weather_values s (data.id' demo_data))
              (stamp past_platform (ticks ?v) [\<lparr>day.summary = ''Rain'', time = 1572566400\<rparr>]))"
      by (rule getWeather_cacheMiss_table [OF p tv])
         (simp_all add: ids_below_def past_platform_def demo_platform_def)
    then show ?thesis
      unfolding e sv
      by (simp add: Weather_columns_def Weather_values_def Weather_at_def slice_def
            past_platform_def demo_platform_def demo_data_def)
  qed
  show ?thesis
    using h c k g t fresh
    by (simp add: added_def r) (simp add: Weather_tableName_def demo_data_def)
qed

subsection \<open>C2\<close>




subsection \<open>C3\<close>

text \<open>
  C3. In a database whose \<^verbatim>\<open>locations\<close> sequence hands out an id that a row already has, the
  insert of \<^verbatim>\<open>Location.prototype.save\<close> does nothing and returns no row. Reading \<^verbatim>\<open>id\<close> of
  \<^verbatim>\<open>result.rows[0]\<close> then throws, the promise of \<^verbatim>\<open>save\<close> is rejected with nobody handling
  it, and \<^verbatim>\<open>getLocation\<close> sends no response at all: neither the location without an id
  nor an error.
\<close>

theorem location_collision_sends_nothing:
  "location_misses demo_platform lagging ''98005''
   \<and> added lagging (getLocation demo_platform ''98005'' Response lagging)
       = [Query (Select ''locations'' ''search_query'' (VStr ''98005'')),
          Get ''https://maps.googleapis.com/maps/api/geocode/json?address=98005&key=KEY'' [],
          Query (InsertOrNothing ''locations''
                   [''search_query'', ''formatted_query'', ''latitude'', ''longitude'']
                   [VStr ''98005'', VStr ''Renton, WA 98056, USA'', VNum (4748 / 100),
                    VNum (- 12219 / 100)]),
          Unhandled TypeError]
   \<and> sends (added lagging (getLocation demo_platform ''98005'' Response lagging)) = []
   \<and> tables (getLocation demo_platform ''98005'' Response lagging) = tables lagging"
proof -
  have m: "location_misses demo_platform lagging ''98005''"
    by (simp add: location_misses_def demo_platform_def lagging_def schema_def)
  have g: "getLocation demo_platform ''98005'' Response lagging
     = lagging\<lparr>serial := (serial lagging)(''locations'' := 2), issued := 2,
         trace := [Query (Select ''locations'' ''search_query'' (VStr ''98005'')),
          Get ''https://maps.googleapis.com/maps/api/geocode/json?address=98005&key=KEY'' [],
          Query (InsertOrNothing ''locations''
                   [''search_query'', ''formatted_query'', ''latitude'', ''longitude'']
                   [VStr ''98005'', VStr ''Renton, WA 98056, USA'', VNum (4748 / 100),
                    VNum (- 12219 / 100)]),
          Unhandled TypeError]\<rparr>"
    by (simp add: run_defs demo_platform_def lagging_def schema_def)
  show ?thesis using m by (simp add: g added_def) (simp add: lagging_def schema_def)
qed

subsection \<open>C4\<close>

text \<open>
  C4. On a cache miss of \<^verbatim>\<open>getEvents\<close>, \<^verbatim>\<open>getMovies\<close> or \<^verbatim>\<open>getYelp\<close> (the lookup is answered
  and finds no row of the location) exactly one response is sent, and it holds at most
  two items, whatever the provider answers: the mapped payload is cut by \<^verbatim>\<open>slice(0, 2)\<close>, and
  the error answer holds no item.
\<close>

theorem miss_response_at_most_two:
  "(misses P w Event_tableName (data.id' request) \<longrightarrow>
      (let sent = sends (added w (getEvents P request response w))
       in length sent = 1 \<and> list_all (\<lambda>(status, b). items b \<le> 2) sent))
   \<and> (misses P w Movie_tableName (data.id' request) \<longrightarrow>
      (let sent = sends (added w (getMovies P request response w))
       in length sent = 1 \<and> list_all (\<lambda>(status, b). items b \<le> 2) sent))
   \<and> (misses P w Yelp_tableName (data.id' request) \<longrightarrow>
      (let sent = sends (added w (getYelp P request response w))
       in length sent = 1 \<and> list_all (\<lambda>(status, b). items b \<le> 2) sent))"
  by (simp add: getEvents_miss_sends getMovies_miss_sends getYelp_miss_sends at_most_two
        sorry_500_def split: sum.split)

text \<open>C4, at the empty database, with a provider that answers three events.\<close>

theorem miss_response_at_most_two_witness:
  "misses demo_platform schema Event_tableName (data.id' demo_data)
   \<and> misses demo_platform schema Movie_tableName (data.id' demo_data)
   \<and> misses demo_platform schema Yelp_tableName (data.id' demo_data)
   \<and> eventbrite demo_platform (getEvents_url demo_platform demo_data) []
        = Inr [\<lparr>event_data.url = ''u1'', name_text = ''n1'',
                 start_local = ''2019-11-01T10:00:00'', summary = ''s1''\<rparr>,
               \<lparr>event_data.url = ''u2'', name_text = ''n2'',
                 start_local = ''2019-11-02T10:00:00'', summary = ''s2''\<rparr>,
               \<lparr>event_data.url = ''u3'', name_text = ''n3'',
                 start_local = ''2019-11-03T10:00:00'', summary = ''s3''\<rparr>]
   \<and> (let sent = sends (added schema (getEvents demo_platform demo_data Response schema))
       in length sent = 1 \<and> list_all (\<lambda>(status, b). items b \<le> 2) sent)
   \<and> (let sent = sends (added schema (getMovies demo_platform demo_data Response schema))
       in length sent = 1 \<and> list_all (\<lambda>(status, b). items b \<le> 2) sent)
   \<and> (let sent = sends (added schema (getYelp demo_platform demo_data Response schema))
       in length sent = 1 \<and> list_all (\<lambda>(status, b). items b \<le> 2) sent)"
  using miss_response_at_most_two [of demo_platform schema demo_data Response] demo_misses
  by (simp add: demo_platform_def)

subsection \<open>C5\<close>

text \<open>
  C5. Once the \<^verbatim>\<open>events\<close> (\<^verbatim>\<open>movies\<close>, \<^verbatim>\<open>yelp\<close>) table holds a row of a location, then after any
  sequence \<open>rs\<close> of requests to the five routes the rows of that location in that table are
  still the same, and a fetch for that location whose \<^verbatim>\<open>SELECT\<close> is answered does nothing
  but that \<^verbatim>\<open>SELECT\<close> and the response with those rows: no provider call, no reading of the
  clock, no change of a table.
\<close>

theorem stored_rows_served_forever:
  "(rows_of w Event_tableName l \<noteq> [] \<longrightarrow>
      (let w' = fold (app P) rs w
       in rows_of w' Event_tableName l = rows_of w Event_tableName l
          \<and> (data.id' d = l \<and> \<not> fault P (issued w') \<longrightarrow>
               getEvents P d response w'
                 = w'\<lparr>issued := Suc (issued w'),
                      trace := trace w' @
                        [Query (Select Event_tableName ''location_id'' (VInt l)),
                         Send 200 (Rows (rows_of w Event_tableName l))]\<rparr>)))
   \<and> (rows_of w Movie_tableName l \<noteq> [] \<longrightarrow>
      (let w' = fold (app P) rs w
       in rows_of w' Movie_tableName l = rows_of w Movie_tableName l
          \<and> (data.id' d = l \<and> \<not> fault P (issued w') \<longrightarrow>
               getMovies P d response w'
                 = w'\<lparr>issued := Suc (issued w'),
                      trace := trace w' @
                        [Query (Select Movie_tableName ''location_id'' (VInt l)),
                         Send 200 (Rows (rows_of w Movie_tableName l))]\<rparr>)))
   \<and> (rows_of w Yelp_tableName l \<noteq> [] \<longrightarrow>
      (let w' = fold (app P) rs w
       in rows_of w' Yelp_tableName l = rows_of w Yelp_tableName l
          \<and> (data.id' d = l \<and> \<not> fault P (issued w') \<longrightarrow>
               getYelp P d response w'
                 = w'\<lparr>issued := Suc (issued w'),
                      trace := trace w' @
                        [Query (Select Yelp_tableName ''location_id'' (VInt l)),
                         Send 200 (Rows (rows_of w Yelp_tableName l))]\<rparr>)))"
proof (intro conjI impI)
  assume a: "rows_of w Event_tableName l \<noteq> []"
  have k: "rows_of (fold (app P) rs w) ''events'' l = rows_of w ''events'' l"
    using a by (intro fold_app_keeps) (simp_all add: Event_tableName_def)
  show "let w' = fold (app P) rs w
       in rows_of w' Event_tableName l = rows_of w Event_tableName l
          \<and> (data.id' d = l \<and> \<not> fault P (issued w') \<longrightarrow>
               getEvents P d response w'
                 = w'\<lparr>issued := Suc (issued w'),
                      trace := trace w' @
                        [Query (Select Event_tableName ''location_id'' (VInt l)),
                         Send 200 (Rows (rows_of w Event_tableName l))]\<rparr>)"
    using a k
    by (auto simp: Let_def Event_tableName_def getEvents_def Event_lookup_def
          getEvents_cacheHit_def [abs_def] intro!: hit_sends_rows)
next
  assume a: "rows_of w Movie_tableName l \<noteq> []"
  have k: "rows_of (fold (app P) rs w) ''movies'' l = rows_of w ''movies'' l"
    using a by (intro fold_app_keeps) (simp_all add: Movie_tableName_def)
  show "let w' = fold (app P) rs w
       in rows_of w' Movie_tableName l = rows_of w Movie_tableName l
          \<and> (data.id' d = l \<and> \<not> fault P (issued w') \<longrightarrow>
               getMovies P d response w'
                 = w'\<lparr>issued := Suc (issued w'),
                      trace := trace w' @
                        [Query (Select Movie_tableName ''location_id'' (VInt l)),
                         Send 200 (Rows (rows_of w Movie_tableName l))]\<rparr>)"
    using a k
    by (auto simp: Let_def Movie_tableName_def getMovies_def Event_lookup_def
          getMovies_cacheHit_def [abs_def] intro!: hit_sends_rows)
next
  assume a: "rows_of w Yelp_tableName l \<noteq> []"
  have k: "rows_of (fold (app P) rs w) ''yelp'' l = rows_of w ''yelp'' l"
    using a by (intro fold_app_keeps) (simp_all add: Yelp_tableName_def)
  show "let w' = fold (app P) rs w
       in rows_of w' Yelp_tableName l = rows_of w Yelp_tableName l
          \<and> (data.id' d = l \<and> \<not> fault P (issued w') \<longrightarrow>
               getYelp P d response w'
                 = w'\<lparr>issued := Suc (issued w'),
                      trace := trace w' @
                        [Query (Select Yelp_tableName ''location_id'' (VInt l)),
                         Send 200 (Rows (rows_of w Yelp_tableName l))]\<rparr>)"
    using a k
    by (auto simp: Let_def Yelp_tableName_def getYelp_def Yelp_lookup_def
          getYelp_cacheHit_def [abs_def] intro!: hit_sends_rows)
qed

text \<open>C5, for a store with one row per table for location 1, after eight other requests.\<close>

theorem stored_rows_served_forever_witness:
  "rows_of stocked Event_tableName 1 \<noteq> []
   \<and> rows_of stocked Movie_tableName 1 \<noteq> []
   \<and> rows_of stocked Yelp_tableName 1 \<noteq> []
   \<and> data.id' demo_data = 1
   \<and> \<not> fault demo_platform (issued (fold (app demo_platform) traffic stocked))
   \<and> (let w' = fold (app demo_platform) traffic stocked
       in added w' (getEvents demo_platform demo_data Response w')
            = [Query (Select ''events'' ''location_id'' (VInt 1)),
               Send 200 (Rows [[(''id'', VInt 1), (''link'', VStr ''u1''), (''name'', VStr ''n1''),
                                (''event_date'', VStr ''Fri Nov 01 2019''),
                                (''summary'', VStr ''s1''), (''location_id'', VInt 1)]])]
          \<and> added w' (getMovies demo_platform demo_data Response w')
            = [Query (Select ''movies'' ''location_id'' (VInt 1)),
               Send 200 (Rows [[(''id'', VInt 1), (''title'', VStr ''t1''),
                               (''overview'', VStr ''o1''), (''average_votes'', VNum 7),
                               (''total_votes'', VNum 10),
                               (''image_url'', VStr ''https://image.tmdb.org/t/p/w185/p1.jpg''),
                               (''popularity'', VNum 3), (''released_on'', VStr ''2019-01-01''),
                               (''location_id'', VInt 1)]])]
          \<and> added w' (getYelp demo_platform demo_data Response w')
            = [Query (Select ''yelp'' ''location_id'' (VInt 1)),
               Send 200 (Rows [[(''id'', VInt 1), (''name'', VStr ''b1''), (''url'', VStr ''y1''),
                             (''image_url'', VStr ''i1''), (''rating'', VNum (9 / 2)),
                             (''price'', VStr ''$''), (''location_id'', VInt 1)]])])"
proof -
  have r: "rows_of stocked Event_tableName 1
             = [[(''id'', VInt 1), (''link'', VStr ''u1''), (''name'', VStr ''n1''),
                 (''event_date'', VStr ''Fri Nov 01 2019''),
                 (''summary'', VStr ''s1''), (''location_id'', VInt 1)]]"
    "rows_of stocked Movie_tableName 1
             = [[(''id'', VInt 1), (''title'', VStr ''t1''),
                 (''overview'', VStr ''o1''), (''average_votes'', VNum 7),
                 (''total_votes'', VNum 10),
                 (''image_url'', VStr ''https://image.tmdb.org/t/p/w185/p1.jpg''),
                 (''popularity'', VNum 3), (''released_on'', VStr ''2019-01-01''),
                 (''location_id'', VInt 1)]]"
    "rows_of stocked Yelp_tableName 1
             = [[(''id'', VInt 1), (''name'', VStr ''b1''), (''url'', VStr ''y1''),
                 (''image_url'', VStr ''i1''), (''rating'', VNum (9 / 2)),
                 (''price'', VStr ''$''), (''location_id'', VInt 1)]]"
    by (simp_all add: rows_of_def stocked_def schema_def Event_tableName_def
          Movie_tableName_def Yelp_tableName_def)
  have d: "data.id' demo_data = 1" by (simp add: demo_data_def)
  have f: "\<not> fault demo_platform (issued (fold (app demo_platform) traffic stocked))"
    by (simp add: demo_platform_def)
  show ?thesis
    using stored_rows_served_forever [of stocked 1 demo_platform traffic demo_data Response]
      d f
    by (simp add: r Let_def added_def)
       (simp add: Event_tableName_def Movie_tableName_def Yelp_tableName_def)
qed

subsection \<open>C6\<close>



subsection \<open>C7\<close>

text \<open>
  C7. On a cache miss of \<^verbatim>\<open>getLocation\<close> whose geocoding answer has an empty \<^verbatim>\<open>results\<close>
  array, the constructor fails on \<^verbatim>\<open>results[0]\<close> (no \<open>Location\<close> is built), the error is
  logged by \<^verbatim>\<open>handleError\<close> without a response object, nothing is inserted and no response
  is sent.
\<close>

theorem empty_geocode_results_type_error:
  assumes "location_misses P w q"
    and "geocode P (getLocation_url P q) [] = Inr []"
  shows "Location_new q [] = Inl TypeError
     \<and> getLocation P q response w
         = w\<lparr>issued := Suc (issued w),
             trace := trace w @ [Query (Select ''locations'' ''search_query'' (VStr q)),
                                  Get (getLocation_url P q) [],
                                  ConsoleError TypeError]\<rparr>
     \<and> sends (added w (getLocation P q response w)) = []"
proof -
  have n: "Location_new q [] = Inl TypeError" by (simp add: Location_new_def)
  have g: "getLocation P q response w
         = w\<lparr>issued := Suc (issued w),
             trace := trace w @ [Query (Select ''locations'' ''search_query'' (VStr q)),
                                  Get (getLocation_url P q) [],
                                  ConsoleError TypeError]\<rparr>"
    using assms
    by (simp add: getLocation_def lookupLocation_miss getLocation_cacheMiss_def
          superagent_get_def n handleError_def)
  show ?thesis using n g by (simp add: added_def)
qed

text \<open>C7, at the empty database, with a geocoder that finds nothing.\<close>

theorem empty_geocode_results_type_error_witness:
  "location_misses nowhere_platform schema ''atlantis''
   \<and> geocode nowhere_platform (getLocation_url nowhere_platform ''atlantis'') [] = Inr []
   \<and> Location_new ''atlantis'' [] = Inl TypeError
   \<and> added schema (getLocation nowhere_platform ''atlantis'' Response schema)
       = [Query (Select ''locations'' ''search_query'' (VStr ''atlantis'')),
          Get ''https://maps.googleapis.com/maps/api/geocode/json?address=atlantis&key=KEY'' [],
          ConsoleError TypeError]
   \<and> tables (getLocation nowhere_platform ''atlantis'' Response schema) = tables schema
   \<and> sends (added schema (getLocation nowhere_platform ''atlantis'' Response schema)) = []"
proof -
  have m: "location_misses nowhere_platform schema ''atlantis''"
    by (simp add: location_misses_def nowhere_platform_def demo_platform_def schema_def)
  have g: "geocode nowhere_platform (getLocation_url nowhere_platform ''atlantis'') [] = Inr []"
    by (simp add: nowhere_platform_def)
  show ?thesis
    using empty_geocode_results_type_error [OF m g, of Response] m g
    by (simp add: added_def getLocation_url_def nowhere_platform_def demo_platform_def)
qed

subsection \<open>C8\<close>




subsection \<open>C9\<close>



subsection \<open>C10\<close>

text \<open>
  C10. \<^verbatim>\<open>Event.lookup\<close> and \<^verbatim>\<open>Movie.lookup\<close> are both the function \<^verbatim>\<open>lookup\<close>, so \<^verbatim>\<open>getMovies\<close>, written
  with \<^verbatim>\<open>Event.lookup\<close>, is the same function as the one written with \<^verbatim>\<open>Movie.lookup\<close>; the
  first thing it does is the \<^verbatim>\<open>SELECT\<close> on the table \<^verbatim>\<open>movies\<close>, and every statement it issues is
  on that table.
\<close>

theorem getMovies_queries_movies:
  "Event_lookup = lookup \<and> Movie_lookup = lookup
   \<and> getMovies P request response w = getMovies_by_Movie_lookup P request response w
   \<and> hd (added w (getMovies P request response w))
       = Query (Select Movie_tableName ''location_id'' (VInt (data.id' request)))
   \<and> list_all (\<lambda>q. stmt_table q = Movie_tableName)
        (queries (added w (getMovies P request response w)))"
proof -
  let ?q = "Select ''movies'' ''location_id'' (VInt (data.id' request))"
  let ?v = "w\<lparr>issued := Suc (issued w), trace := trace w @ [Query ?q]\<rparr>"
  obtain es where es: "trace (getMovies_cacheMiss P request response ?v) = trace ?v @ es"
    using getMovies_cacheMiss_queries by blast
  have miss: "added w (getMovies_cacheMiss P request response ?v) = Query ?q # es"
    by (rule added_append) (simp add: es)
  have first: "hd (added w (getMovies P request response w)) = Query ?q"
    using miss
    by (simp add: getMovies_def Event_lookup_def lookup_def client_query_def Movie_tableName_def
          handleError_def getMovies_cacheHit_def response_send_def added_def Let_def
          split: option.split)
  show ?thesis
    using first getMovies_queries [of w P request response]
    by (simp add: Event_lookup_def Movie_lookup_def getMovies_by_Movie_lookup_def getMovies_def
          Movie_tableName_def)
qed

text \<open>C10, at the empty database.\<close>

theorem getMovies_queries_movies_witness:
  "getMovies demo_platform demo_data Response schema
     = getMovies_by_Movie_lookup demo_platform demo_data Response schema
   \<and> hd (added schema (getMovies demo_platform demo_data Response schema))
       = Query (Select ''movies'' ''location_id'' (VInt 1))
   \<and> list_all (\<lambda>q. stmt_table q = ''movies'')
        (queries (added schema (getMovies demo_platform demo_data Response schema)))"
proof -
  have d: "data.id' demo_data = 1" by (simp add: demo_data_def)
  show ?thesis
    using getMovies_queries_movies [of demo_platform demo_data Response schema,
            THEN conjunct2, THEN conjunct2, unfolded Movie_tableName_def d] .
qed


end
